theory Spec2Isabelle
  imports Complex_Main
begin

section \<open>Numeric values\<close>

text \<open>
  The pipeline of \<^verbatim>\<open>predict.py\<close> computes on numpy arrays of floating-point numbers.
  An array element is modelled by the real number it denotes, or by one of the three
  special values numpy produces instead of raising: an elementwise division by zero gives
  an infinity (or not-a-number for \<open>0 / 0\<close>) and only a warning. Zero carries no sign (a
  zero divisor counts as \<open>+0\<close>, which is what an exactly cancelling sum gives). The
  operations of this section are exact; the rounding and the overflow of the binary
  formats are the casts \<open>float32\<close> and \<open>float64\<close> of the next section, applied where the
  code stores or computes in a format and a result depends on it: the float32 matrix of
  the intrinsics and the float32 arithmetic of the depth normalisation.
\<close>

datatype npfloat = Fin real | PInf | NInf | NaN

fun fneg :: "npfloat \<Rightarrow> npfloat" where
  "fneg (Fin a) = Fin (- a)"
| "fneg PInf = NInf"
| "fneg NInf = PInf"
| "fneg NaN = NaN"

fun fadd :: "npfloat \<Rightarrow> npfloat \<Rightarrow> npfloat" where
  "fadd NaN _ = NaN"
| "fadd _ NaN = NaN"
| "fadd (Fin a) (Fin b) = Fin (a + b)"
| "fadd PInf NInf = NaN"
| "fadd NInf PInf = NaN"
| "fadd PInf _ = PInf"
| "fadd NInf _ = NInf"
| "fadd (Fin a) b = b"

definition fsub :: "npfloat \<Rightarrow> npfloat \<Rightarrow> npfloat" where
  "fsub a b = fadd a (fneg b)"

text \<open>The sign of an infinite product or quotient: the factor's sign flips the infinity.\<close>

definition signed_inf :: "npfloat \<Rightarrow> real \<Rightarrow> npfloat" where
  "signed_inf i a = (if a = 0 then NaN else if 0 < a then i else fneg i)"

fun fmul :: "npfloat \<Rightarrow> npfloat \<Rightarrow> npfloat" where
  "fmul NaN _ = NaN"
| "fmul _ NaN = NaN"
| "fmul (Fin a) (Fin b) = Fin (a * b)"
| "fmul (Fin a) b = signed_inf b a"
| "fmul a (Fin b) = signed_inf a b"
| "fmul PInf b = b"
| "fmul NInf b = fneg b"

fun fdiv :: "npfloat \<Rightarrow> npfloat \<Rightarrow> npfloat" where
  "fdiv NaN _ = NaN"
| "fdiv _ NaN = NaN"
| "fdiv (Fin a) (Fin b) =
     (if b = 0 then (if a = 0 then NaN else if 0 < a then PInf else NInf)
      else Fin (a / b))"
| "fdiv (Fin a) _ = Fin 0"
| "fdiv a (Fin b) = (if 0 \<le> b then a else fneg a)"
| "fdiv _ _ = NaN"

text \<open>Comparison \<open>a > b\<close>: false as soon as one side is not a number.\<close>

fun fgt :: "npfloat \<Rightarrow> npfloat \<Rightarrow> bool" where
  "fgt NaN _ = False"
| "fgt _ NaN = False"
| "fgt (Fin a) (Fin b) = (b < a)"
| "fgt PInf b = (b \<noteq> PInf)"
| "fgt a NInf = (a \<noteq> NInf)"
| "fgt _ _ = False"

section \<open>Binary floating point\<close>

text \<open>
  \<open>expo x\<close> is the binary exponent of a positive number: \<open>2 ^ expo x \<le> x < 2 ^ (expo x + 1)\<close>.
\<close>

function expo :: "real \<Rightarrow> int" where
  "expo x = (if 2 \<le> x then expo (x / 2) + 1
             else if 0 < x \<and> x < 1 then expo (2 * x) - 1
             else 0)"
  by pat_completeness auto
termination
proof (relation "measure (\<lambda>x. if 1 \<le> x then nat \<lfloor>x\<rfloor> else nat \<lceil>1 / x\<rceil> + 1)")
  show "wf (measure (\<lambda>x::real. if 1 \<le> x then nat \<lfloor>x\<rfloor> else nat \<lceil>1 / x\<rceil> + 1))" by simp
next
  fix x :: real assume "2 \<le> x"
  then have "\<lfloor>x / 2\<rfloor> \<le> \<lfloor>x - 1\<rfloor>" by (intro floor_mono) simp
  moreover have "2 \<le> \<lfloor>x\<rfloor>" using \<open>2 \<le> x\<close> by (simp add: le_floor_iff)
  ultimately show "(x / 2, x) \<in> measure (\<lambda>x. if 1 \<le> x then nat \<lfloor>x\<rfloor> else nat \<lceil>1 / x\<rceil> + 1)"
    using \<open>2 \<le> x\<close> by simp
next
  fix x :: real assume a: "\<not> 2 \<le> x" "0 < x \<and> x < 1"
  show "(2 * x, x) \<in> measure (\<lambda>x. if 1 \<le> x then nat \<lfloor>x\<rfloor> else nat \<lceil>1 / x\<rceil> + 1)"
  proof (cases "1 \<le> 2 * x")
    case True
    have "\<lfloor>2 * x\<rfloor> \<le> 1" using a by (simp add: floor_le_iff)
    then have "nat \<lfloor>2 * x\<rfloor> \<le> 1" by linarith
    moreover have "1 < 1 / x" using a by simp
    then have "2 \<le> \<lceil>1 / x\<rceil>" by (simp add: le_ceiling_iff)
    then have "2 \<le> nat \<lceil>1 / x\<rceil>" by linarith
    ultimately have "nat \<lfloor>2 * x\<rfloor> < Suc (nat \<lceil>1 / x\<rceil>)" by linarith
    then show ?thesis using True a by simp
  next
    case False
    then have t: "2 < 1 / x" using a by (simp add: field_simps)
    have "1 / (2 * x) \<le> 1 / x - 1" using t a by (simp add: field_simps)
    then have "\<lceil>1 / (2 * x)\<rceil> \<le> \<lceil>1 / x - 1\<rceil>" by (rule ceiling_mono)
    moreover have "3 \<le> \<lceil>1 / x\<rceil>" using t by (simp add: le_ceiling_iff)
    ultimately have "nat \<lceil>1 / (2 * x)\<rceil> < nat \<lceil>1 / x\<rceil>" by linarith
    then show ?thesis using False a by simp
  qed
qed

declare expo.simps [simp del]

text \<open>Rounding to the nearest integer, a tie to the even one.\<close>

definition round_even :: "real \<Rightarrow> int" where
  "round_even q =
     (let f = \<lfloor>q\<rfloor>; r = q - of_int f
      in if r < 1 / 2 then f else if 1 / 2 < r then f + 1 else if even f then f else f + 1)"

text \<open>
  The value of a real number in a binary format of precision \<open>p\<close> with exponents from
  \<open>emin\<close> to \<open>emax\<close>: the nearest multiple of the unit in the last place (of the least
  normal number's unit below the normal range), and an infinity when that multiple
  lies beyond the largest finite number.
\<close>

definition round_to :: "nat \<Rightarrow> int \<Rightarrow> int \<Rightarrow> real \<Rightarrow> npfloat" where
  "round_to p emin emax x =
     (if x = 0 then Fin 0
      else let e = max (expo \<bar>x\<bar>) emin;
               ulp = 2 powi (e - int p + 1);
               y = of_int (round_even (x / ulp)) * ulp
           in if 2 powi (emax + 1) \<le> \<bar>y\<bar> then (if 0 < x then PInf else NInf) else Fin y)"

fun float32 :: "npfloat \<Rightarrow> npfloat" where
  "float32 (Fin x) = round_to 24 (- 126) 127 x"
| "float32 a = a"

fun float64 :: "npfloat \<Rightarrow> npfloat" where
  "float64 (Fin x) = round_to 53 (- 1022) 1023 x"
| "float64 a = a"

declare float32.simps(1) [simp del] float64.simps(1) [simp del]

section \<open>Camera intrinsics\<close>

text \<open>
  The matrix \<open>K\<close> is the 3 by 3 array \<^verbatim>\<open>[[fx, 0, cx], [0, fy, cy], [0, 0, 1]]\<close>; the
  pipeline reads the four entries \<^verbatim>\<open>K[0,0]\<close>, \<^verbatim>\<open>K[1,1]\<close>, \<^verbatim>\<open>K[0,2]\<close>, \<^verbatim>\<open>K[1,2]\<close>.
\<close>

type_synonym row3 = "npfloat \<times> npfloat \<times> npfloat"
type_synonym mat3 = "row3 \<times> row3 \<times> row3"

definition K00 :: "mat3 \<Rightarrow> npfloat" where
  "K00 K = (case K of ((a, _, _), _, _) \<Rightarrow> a)"

definition K02 :: "mat3 \<Rightarrow> npfloat" where
  "K02 K = (case K of ((_, _, c), _, _) \<Rightarrow> c)"

definition K11 :: "mat3 \<Rightarrow> npfloat" where
  "K11 K = (case K of (_, (_, b, _), _) \<Rightarrow> b)"

definition K12 :: "mat3 \<Rightarrow> npfloat" where
  "K12 K = (case K of (_, (_, _, c), _) \<Rightarrow> c)"

text \<open>
  \<^verbatim>\<open>infer_intrinsics(img_w, img_h, focal_px=None)\<close>: the principal point is the image
  centre; the focal length is the override when one is given and \<open>1.2 * max(img_w, img_h)\<close>
  otherwise. The scalars are Python floats, that is float64: the integers and the
  override are converted to float64, \<open>1.2\<close> is the float64 nearest to \<open>12 / 10\<close>, and each
  operation rounds. The matrix is built with \<^verbatim>\<open>dtype=np.float32\<close>, which casts its nine
  entries. Image sizes lie far below the largest float64, beyond which the conversion of
  a Python integer raises instead of giving an infinity.
\<close>

definition infer_intrinsics :: "int \<Rightarrow> int \<Rightarrow> npfloat option \<Rightarrow> mat3" where
  "infer_intrinsics img_w img_h focal_px =
     (let cx = float64 (fdiv (float64 (Fin (real_of_int img_w))) (Fin 2));
          cy = float64 (fdiv (float64 (Fin (real_of_int img_h))) (Fin 2));
          fx = (case focal_px of
                  None \<Rightarrow> float64 (fmul (float64 (Fin (12 / 10)))
                                   (float64 (Fin (real_of_int (max img_w img_h)))))
                | Some f \<Rightarrow> float64 f);
          fy = fx
      in ((float32 fx, float32 (Fin 0), float32 cx),
          (float32 (Fin 0), float32 fy, float32 cy),
          (float32 (Fin 0), float32 (Fin 0), float32 (Fin 1))))"

section \<open>Exceptions\<close>

text \<open>
  A Python exception is a value: its class and its message. A call that may raise
  returns \<open>Inl\<close> of the exception or \<open>Inr\<close> of its result, and \<open>and_then\<close> is the
  sequencing of two statements: the second runs only when the first returned.
\<close>

datatype exc =
    FileNotFoundError string
  | RuntimeError string
  | ValueError string
  | OtherException string

fun exc_str :: "exc \<Rightarrow> string" where
  "exc_str (FileNotFoundError m) = m"
| "exc_str (RuntimeError m) = m"
| "exc_str (ValueError m) = m"
| "exc_str (OtherException m) = m"

definition and_then :: "exc + 'a \<Rightarrow> ('a \<Rightarrow> exc + 'b) \<Rightarrow> exc + 'b" where
  "and_then m f = (case m of Inl e \<Rightarrow> Inl e | Inr x \<Rightarrow> f x)"

section \<open>Arrays\<close>

text \<open>
  A two-dimensional array is the list of its rows. \<open>arr_scalar\<close> and \<open>arr_arr\<close> are
  numpy's elementwise operations, with a scalar broadcast and between two arrays of one
  shape; \<open>amin\<close> and \<open>amax\<close> are \<^verbatim>\<open>ndarray.min()\<close> and \<^verbatim>\<open>ndarray.max()\<close>, which
  raise on an array without elements and return not-a-number as soon as one element is.
\<close>

type_synonym ndarray = "npfloat list list"

definition shape :: "ndarray \<Rightarrow> nat \<times> nat" where
  "shape a = (length a, (case a of [] \<Rightarrow> 0 | r # _ \<Rightarrow> length r))"

definition arr_scalar :: "(npfloat \<Rightarrow> npfloat \<Rightarrow> npfloat) \<Rightarrow> ndarray \<Rightarrow> npfloat \<Rightarrow> ndarray" where
  "arr_scalar f a c = map (map (\<lambda>x. f x c)) a"

definition arr_arr :: "(npfloat \<Rightarrow> npfloat \<Rightarrow> npfloat) \<Rightarrow> ndarray \<Rightarrow> ndarray \<Rightarrow> ndarray" where
  "arr_arr f a b = map2 (map2 f) a b"

fun fminimum :: "npfloat \<Rightarrow> npfloat \<Rightarrow> npfloat" where
  "fminimum NaN _ = NaN"
| "fminimum _ NaN = NaN"
| "fminimum a b = (if fgt a b then b else a)"

fun fmaximum :: "npfloat \<Rightarrow> npfloat \<Rightarrow> npfloat" where
  "fmaximum NaN _ = NaN"
| "fmaximum _ NaN = NaN"
| "fmaximum a b = (if fgt b a then b else a)"

definition amin :: "ndarray \<Rightarrow> exc + npfloat" where
  "amin a =
     (case concat a of
        [] \<Rightarrow> Inl (ValueError ''zero-size array to reduction operation minimum which has no identity'')
      | x # xs \<Rightarrow> Inr (foldl fminimum x xs))"

definition amax :: "ndarray \<Rightarrow> exc + npfloat" where
  "amax a =
     (case concat a of
        [] \<Rightarrow> Inl (ValueError ''zero-size array to reduction operation maximum which has no identity'')
      | x # xs \<Rightarrow> Inr (foldl fmaximum x xs))"

text \<open>Predicates on arrays: every element a finite number between two bounds.\<close>

fun fin_between :: "real \<Rightarrow> real \<Rightarrow> npfloat \<Rightarrow> bool" where
  "fin_between lo hi (Fin v) = (lo \<le> v \<and> v \<le> hi)"
| "fin_between lo hi _ = False"

fun is_fin :: "npfloat \<Rightarrow> bool" where
  "is_fin (Fin v) = True"
| "is_fin _ = False"

definition in_range :: "real \<Rightarrow> real \<Rightarrow> ndarray \<Rightarrow> bool" where
  "in_range lo hi a = list_all (list_all (fin_between lo hi)) a"

definition all_finite :: "ndarray \<Rightarrow> bool" where
  "all_finite a = list_all (list_all is_fin) a"

definition constant_array :: "real \<Rightarrow> ndarray \<Rightarrow> bool" where
  "constant_array c a = list_all (list_all (\<lambda>x. x = Fin c)) a"

section \<open>Depth estimation\<close>

datatype device = Cuda | Cpu

text \<open>
  The collaborators of \<^verbatim>\<open>estimate_depth\<close>: \<open>predict\<close> is the inference of lines 87 to 92
  (colour conversion, the variant's transform, the network, bicubic resizing to the image's
  size), which returns the raw depth map or raises; \<open>bilateralFilter\<close> is OpenCV's filter
  with its window diameter and its two sigmas.
\<close>

record ('model, 'tfm, 'img) vision =
  predict :: "'model \<Rightarrow> 'tfm \<Rightarrow> 'img \<Rightarrow> device \<Rightarrow> exc + ndarray"
  bilateralFilter :: "ndarray \<Rightarrow> nat \<Rightarrow> real \<Rightarrow> real \<Rightarrow> exc + ndarray"

text \<open>
  Line 94: \<^verbatim>\<open>(depth - depth.min()) / (depth.max() - depth.min() + 1e-8)\<close>. The depth map
  is an array of float32, its minimum and maximum are float32 scalars, and \<open>1e-8\<close> is a
  Python float, the float64 nearest to \<open>1 / 100000000\<close>, which takes the type of the
  float32 scalar it is added to. Every operation is one of float32 and rounds to it.
  (Older versions of numpy form the sum of the denominator in float64 and cast it to
  float32 for the division; the denominator of a constant map and an infinite one are
  the same under both rules.)
\<close>

definition minmax_normalize :: "ndarray \<Rightarrow> exc + ndarray" where
  "minmax_normalize depth =
     and_then (amin depth) (\<lambda>lo.
     and_then (amax depth) (\<lambda>hi.
     and_then (amin depth) (\<lambda>lo'.
       Inr (arr_scalar (\<lambda>a b. float32 (fdiv a b))
              (arr_scalar (\<lambda>a b. float32 (fsub a b)) depth lo)
              (float32 (fadd (float32 (fsub hi lo')) (float32 (float64 (Fin (1 / 100000000))))))))))"

definition estimate_depth ::
  "('model, 'tfm, 'img) vision \<Rightarrow> 'model \<Rightarrow> 'tfm \<Rightarrow> 'img \<Rightarrow> device \<Rightarrow> exc + ndarray" where
  "estimate_depth V model transform image_bgr dev =
     and_then (predict V model transform image_bgr dev) (\<lambda>depth.
     and_then (minmax_normalize depth) (\<lambda>depth.
       bilateralFilter V depth 9 (1 / 10) 7))"

text \<open>
  What the pipeline needs of the filter: on an array with at least one element, all of
  them finite and between two bounds, it returns an array whose elements are finite and
  between the same bounds (each output pixel is a weighted mean of input pixels).
\<close>

definition range_preserving :: "(ndarray \<Rightarrow> nat \<Rightarrow> real \<Rightarrow> real \<Rightarrow> exc + ndarray) \<Rightarrow> bool" where
  "range_preserving f =
     (\<forall>a d sc ss lo hi. concat a \<noteq> [] \<and> in_range lo hi a \<longrightarrow>
        (\<exists>b. f a d sc ss = Inr b \<and> in_range lo hi b))"

section \<open>Back-projection\<close>

text \<open>
  numpy arrays are mutable objects that a caller and a callee share. The back-projector
  is therefore modelled on a store of arrays: an array is named by its address, every
  numpy operation that builds a new array allocates a cell, and an operation in place
  would overwrite one. The function below is \<^verbatim>\<open>depth_to_pointcloud\<close> statement by
  statement; index vectors and the boolean mask (\<open>msk\<close>) are immutable values of the function.
\<close>

type_synonym store = "ndarray list"

definition alloc :: "store \<Rightarrow> ndarray \<Rightarrow> nat \<times> store" where
  "alloc s a = (length s, s @ [a])"

definition deref :: "store \<Rightarrow> nat \<Rightarrow> ndarray" where
  "deref s p = s ! p"

definition np_copy :: "store \<Rightarrow> nat \<Rightarrow> nat \<times> store" where
  "np_copy s a = alloc s (deref s a)"

definition np_scalar :: "(npfloat \<Rightarrow> npfloat \<Rightarrow> npfloat) \<Rightarrow> store \<Rightarrow> nat \<Rightarrow> npfloat \<Rightarrow> nat \<times> store" where
  "np_scalar f s a c = alloc s (arr_scalar f (deref s a) c)"

definition np_arr :: "(npfloat \<Rightarrow> npfloat \<Rightarrow> npfloat) \<Rightarrow> store \<Rightarrow> nat \<Rightarrow> nat \<Rightarrow> nat \<times> store" where
  "np_arr f s a b = alloc s (arr_arr f (deref s a) (deref s b))"

text \<open>\<^verbatim>\<open>np.meshgrid(us, vs)\<close>: \<open>u[i][j] = us[j]\<close> and \<open>v[i][j] = vs[i]\<close>.\<close>

definition np_meshgrid :: "store \<Rightarrow> nat list \<Rightarrow> nat list \<Rightarrow> (nat \<times> nat) \<times> store" where
  "np_meshgrid s us vs =
     (let (u, s) = alloc s (map (\<lambda>i. map (\<lambda>j. Fin (real j)) us) vs);
          (v, s) = alloc s (map (\<lambda>i. map (\<lambda>j. Fin (real i)) us) vs)
      in ((u, v), s))"

text \<open>\<^verbatim>\<open>np.stack([x, y, z], axis=-1).reshape(-1, 3)\<close>: one row \<open>[x, y, z]\<close> per pixel.\<close>

definition np_stack3 :: "store \<Rightarrow> nat \<Rightarrow> nat \<Rightarrow> nat \<Rightarrow> nat \<times> store" where
  "np_stack3 s x y z =
     alloc s (map (\<lambda>(a, b, c). [a, b, c])
                (zip (concat (deref s x)) (zip (concat (deref s y)) (concat (deref s z)))))"

text \<open>\<^verbatim>\<open>pts[mask]\<close>: the rows whose mask entry is true, in order, as a new array.\<close>

definition np_select :: "store \<Rightarrow> nat \<Rightarrow> bool list \<Rightarrow> nat \<times> store" where
  "np_select s a msk = alloc s (map fst (filter snd (zip (deref s a) msk)))"

record pointcloud =
  points :: "row3 list"
  normals :: "row3 list"

text \<open>\<^verbatim>\<open>o3d.geometry.PointCloud(o3d.utility.Vector3dVector(pts))\<close> copies the rows out.\<close>

definition PointCloud :: "ndarray \<Rightarrow> pointcloud" where
  "PointCloud pts = \<lparr>points = map (\<lambda>r. (r ! 0, r ! 1, r ! 2)) pts, normals = []\<rparr>"

definition depth_to_pointcloud_st :: "store \<Rightarrow> nat \<Rightarrow> mat3 \<Rightarrow> pointcloud \<times> store" where
  "depth_to_pointcloud_st s depth K =
     (let (H, W) = shape (deref s depth);
          fx = K00 K; fy = K11 K;
          cx = K02 K; cy = K12 K;
          us = [0..<W];
          vs = [0..<H];
          ((u, v), s) = np_meshgrid s us vs;
          (z, s) = np_copy s depth;
          (z, s) = np_scalar fmul s z (Fin 3);
          (t, s) = np_scalar fsub s u cx;
          (t, s) = np_arr fmul s t z;
          (x, s) = np_scalar fdiv s t fx;
          (t, s) = np_scalar fsub s v cy;
          (t, s) = np_arr fmul s t z;
          (y, s) = np_scalar fdiv s t fy;
          (pts, s) = np_stack3 s x y z;
          msk = map (\<lambda>d. fgt d (Fin (1 / 1000))) (concat (deref s z));
          (pts, s) = np_select s pts msk
      in (PointCloud (deref s pts), s))"

text \<open>
  The back-projector as a function of the depth map's value: the call in a store that
  holds the depth map alone.
\<close>

definition depth_to_pointcloud :: "ndarray \<Rightarrow> mat3 \<Rightarrow> pointcloud" where
  "depth_to_pointcloud depth K = fst (depth_to_pointcloud_st [depth] 0 K)"

section \<open>Loading the depth model\<close>

text \<open>
  \<^verbatim>\<open>torch.hub\<close> is a collaborator: \<open>load_transforms\<close> is
  \<^verbatim>\<open>torch.hub.load("intel-isl/MiDaS", "transforms")\<close>, \<open>load_model\<close> is
  \<^verbatim>\<open>torch.hub.load("intel-isl/MiDaS", model_name)\<close> and \<open>eval_to\<close> is
  \<^verbatim>\<open>model.eval().to(device)\<close>. Each returns or raises.
\<close>

record 'tfm transforms =
  small_transform :: 'tfm
  dpt_transform :: 'tfm

record ('model, 'tfm) hub =
  load_transforms :: "exc + 'tfm transforms"
  load_model :: "string \<Rightarrow> exc + 'model"
  eval_to :: "'model \<Rightarrow> device \<Rightarrow> exc + 'model"

text \<open>The first two statements of the \<^verbatim>\<open>try\<close> block, for one variant.\<close>

definition init_variant :: "('model, 'tfm) hub \<Rightarrow> device \<Rightarrow> string \<Rightarrow> exc + 'model" where
  "init_variant H dev model_name =
     and_then (load_model H model_name) (\<lambda>model. eval_to H model dev)"

text \<open>
  The \<^verbatim>\<open>for\<close> loop over the variant names: an exception of the \<^verbatim>\<open>try\<close> block is
  stored in \<open>last_error\<close> and the loop goes on; the loop ends by the \<^verbatim>\<open>return\<close> or,
  the names exhausted, with \<open>last_error\<close>.
\<close>

fun load_variants ::
  "('model, 'tfm) hub \<Rightarrow> device \<Rightarrow> 'tfm transforms \<Rightarrow> string list \<Rightarrow> exc option
     \<Rightarrow> exc option + ('model \<times> 'tfm)" where
  "load_variants H dev T [] last_error = Inl last_error"
| "load_variants H dev T (model_name # rest) last_error =
     (case init_variant H dev model_name of
        Inr model \<Rightarrow>
          Inr (model, if model_name = ''MiDaS_small'' then small_transform T
                      else dpt_transform T)
      | Inl e \<Rightarrow> load_variants H dev T rest (Some e))"

text \<open>The f-string's rendering of \<open>last_error\<close>.\<close>

definition format_error :: "exc option \<Rightarrow> string" where
  "format_error last_error = (case last_error of None \<Rightarrow> ''None'' | Some e \<Rightarrow> exc_str e)"

definition load_midas :: "('model, 'tfm) hub \<Rightarrow> device \<Rightarrow> exc + ('model \<times> 'tfm)" where
  "load_midas H dev =
     and_then (load_transforms H) (\<lambda>T.
       case load_variants H dev T [''DPT_Large'', ''DPT_Hybrid'', ''MiDaS_small''] None of
         Inr r \<Rightarrow> Inr r
       | Inl last_error \<Rightarrow>
           Inl (RuntimeError (''Failed to load MiDaS model variants: '' @ format_error last_error)))"

section \<open>Point-cloud cleanup and meshing\<close>

record trianglemesh =
  vertices :: "row3 list"
  triangles :: "(nat \<times> nat \<times> nat) list"
  vertex_normals :: "row3 list"

type_synonym bbox = "row3 \<times> row3"

text \<open>
  Open3D is a collaborator: each of its operations is a parameter that returns or raises.
  The operations that work in place (\<^verbatim>\<open>estimate_normals\<close>, \<^verbatim>\<open>compute_vertex_normals\<close>,
  which set the normals only, and the four \<^verbatim>\<open>remove_...\<close> repairs) are functions to the
  new normals and to the new mesh.
\<close>

record o3d =
  voxel_down_sample :: "pointcloud \<Rightarrow> real \<Rightarrow> exc + pointcloud"
  remove_statistical_outlier :: "pointcloud \<Rightarrow> nat \<Rightarrow> real \<Rightarrow> exc + pointcloud \<times> nat list"
  estimate_normals :: "pointcloud \<Rightarrow> real \<Rightarrow> nat \<Rightarrow> exc + row3 list"
  create_from_point_cloud_poisson :: "pointcloud \<Rightarrow> nat \<Rightarrow> exc + trianglemesh \<times> real list"
  get_axis_aligned_bounding_box :: "pointcloud \<Rightarrow> exc + bbox"
  crop :: "trianglemesh \<Rightarrow> bbox \<Rightarrow> exc + trianglemesh"
  remove_degenerate_triangles :: "trianglemesh \<Rightarrow> exc + trianglemesh"
  remove_duplicated_triangles :: "trianglemesh \<Rightarrow> exc + trianglemesh"
  remove_duplicated_vertices :: "trianglemesh \<Rightarrow> exc + trianglemesh"
  remove_non_manifold_edges :: "trianglemesh \<Rightarrow> exc + trianglemesh"
  filter_smooth_simple :: "trianglemesh \<Rightarrow> nat \<Rightarrow> exc + trianglemesh"
  simplify_quadric_decimation :: "trianglemesh \<Rightarrow> nat \<Rightarrow> exc + trianglemesh"
  compute_vertex_normals :: "trianglemesh \<Rightarrow> exc + row3 list"
  mesh_bounding_box :: "trianglemesh \<Rightarrow> exc + bbox"

definition clean_pointcloud :: "o3d \<Rightarrow> pointcloud \<Rightarrow> exc + pointcloud" where
  "clean_pointcloud O3 pcd =
     and_then (voxel_down_sample O3 pcd (1 / 100)) (\<lambda>pcd.
     and_then (remove_statistical_outlier O3 pcd 20 2) (\<lambda>(pcd, _).
     and_then (estimate_normals O3 pcd (5 / 100) 30) (\<lambda>ns.
       Inr (pcd\<lparr>normals := ns\<rparr>))))"

text \<open>Lines 145 to 155 of \<^verbatim>\<open>reconstruct_mesh\<close>: reconstruction, crop, repair, smoothing.\<close>

definition repair_mesh :: "o3d \<Rightarrow> pointcloud \<Rightarrow> exc + trianglemesh" where
  "repair_mesh O3 pcd =
     and_then (create_from_point_cloud_poisson O3 pcd 8) (\<lambda>(mesh, densities).
     and_then (get_axis_aligned_bounding_box O3 pcd) (\<lambda>bbox.
     and_then (crop O3 mesh bbox) (\<lambda>mesh.
     and_then (remove_degenerate_triangles O3 mesh) (\<lambda>mesh.
     and_then (remove_duplicated_triangles O3 mesh) (\<lambda>mesh.
     and_then (remove_duplicated_vertices O3 mesh) (\<lambda>mesh.
     and_then (remove_non_manifold_edges O3 mesh) (\<lambda>mesh.
       filter_smooth_simple O3 mesh 1)))))))"

text \<open>Line 160: \<^verbatim>\<open>mesh.compute_vertex_normals()\<close>.\<close>

definition with_vertex_normals :: "o3d \<Rightarrow> trianglemesh \<Rightarrow> exc + trianglemesh" where
  "with_vertex_normals O3 mesh =
     and_then (compute_vertex_normals O3 mesh) (\<lambda>ns. Inr (mesh\<lparr>vertex_normals := ns\<rparr>))"

definition reconstruct_mesh :: "o3d \<Rightarrow> pointcloud \<Rightarrow> exc + trianglemesh" where
  "reconstruct_mesh O3 pcd =
     and_then (repair_mesh O3 pcd) (\<lambda>mesh.
       let target = min (length (triangles mesh)) 150000 in
       and_then (if target > 0 then simplify_quadric_decimation O3 mesh target else Inr mesh)
         (\<lambda>mesh. with_vertex_normals O3 mesh))"

text \<open>
  What the triangle budget needs of the decimation: a mesh it returns has at most the
  requested number of triangles.
\<close>

definition reaches_target :: "(trianglemesh \<Rightarrow> nat \<Rightarrow> exc + trianglemesh) \<Rightarrow> bool" where
  "reaches_target f = (\<forall>m t m'. f m t = Inr m' \<longrightarrow> length (triangles m') \<le> t)"

section \<open>Texture coordinates\<close>

text \<open>\<^verbatim>\<open>np.clip(a, lo, hi)\<close> is \<^verbatim>\<open>minimum(maximum(a, lo), hi)\<close>.\<close>

definition clip :: "npfloat \<Rightarrow> npfloat \<Rightarrow> npfloat \<Rightarrow> npfloat" where
  "clip a lo hi = fminimum (fmaximum a lo) hi"

definition compute_uv :: "trianglemesh \<Rightarrow> mat3 \<Rightarrow> int \<Rightarrow> int \<Rightarrow> (npfloat \<times> npfloat) list" where
  "compute_uv mesh K img_w img_h =
     (let verts = vertices mesh;
          fx = K00 K; fy = K11 K;
          cx = K02 K; cy = K12 K;
          X = map (\<lambda>(x, y, z). x) verts;
          Y = map (\<lambda>(x, y, z). y) verts;
          Z = map (\<lambda>(x, y, z). z) verts;
          eps = Fin (1 / 1000000);
          u = map2 (\<lambda>x z. fadd (fdiv (fmul fx x) (fadd z eps)) cx) X Z;
          v = map2 (\<lambda>y z. fadd (fdiv (fmul fy y) (fadd z eps)) cy) Y Z;
          u = map (\<lambda>a. clip (fdiv a (Fin (real_of_int img_w))) (Fin 0) (Fin 1)) u;
          v = map (\<lambda>a. clip (fdiv a (Fin (real_of_int img_h))) (Fin 0) (Fin 1)) v;
          v = map (\<lambda>a. fsub (Fin 1) a) v
      in zip u v)"

section \<open>Export and the pipeline\<close>

text \<open>
  The output directory is a list of files, the last written first; a statement that
  writes files takes the list and returns its outcome with the new list, so that the
  files written before an exception are still there after it. \<open>call\<close> is a statement
  that writes nothing, \<open>put_file\<close> writes one file, \<open>io_then\<close> sequences two statements.
  A directory is the prefix of a path, so \<^verbatim>\<open>mkdir(parents=True, exist_ok=True)\<close> changes
  nothing in the list.
\<close>

type_synonym files = "(string \<times> string) list"
type_synonym 'a io = "files \<Rightarrow> (exc + 'a) \<times> files"

definition read_file :: "files \<Rightarrow> string \<Rightarrow> string option" where
  "read_file fs path = map_of fs path"

definition call :: "exc + 'a \<Rightarrow> 'a io" where
  "call r = (\<lambda>fs. (r, fs))"

definition put_file :: "string \<Rightarrow> string \<Rightarrow> unit io" where
  "put_file path content = (\<lambda>fs. (Inr (), (path, content) # fs))"

definition io_then :: "'a io \<Rightarrow> ('a \<Rightarrow> 'b io) \<Rightarrow> 'b io" where
  "io_then m f = (\<lambda>fs. case m fs of (Inl e, fs') \<Rightarrow> (Inl e, fs') | (Inr x, fs') \<Rightarrow> f x fs')"

record stats =
  stat_vertices :: nat
  stat_faces :: nat
  stat_bbox_min :: row3
  stat_bbox_max :: row3

text \<open>
  The image and encoding libraries (OpenCV, PIL, trimesh, json) are collaborators:
  \<open>imread\<close> is \<^verbatim>\<open>cv2.imread\<close> (\<open>None\<close> for a file it cannot read), \<open>im_shape\<close> the height
  and width of an image, \<open>save_image\<close> the PNG bytes of line 278, \<open>open_image\<close> the decoding
  of lines 200 and 201, \<open>export_obj\<close> and \<open>export_glb\<close> the trimesh encoders applied to the
  mesh with its UVs and texture (lines 204 to 214, 222 and 223), \<open>save_texture\<close> the PNG
  bytes of line 219 and \<open>json_dump\<close> the text of \<^verbatim>\<open>stats.json\<close>.
\<close>

record ('img, 'tex) media =
  imread :: "string \<Rightarrow> 'img option"
  im_shape :: "'img \<Rightarrow> nat \<times> nat"
  cuda_is_available :: bool
  save_image :: "'img \<Rightarrow> exc + string"
  open_image :: "string \<Rightarrow> exc + 'tex"
  export_obj :: "trianglemesh \<Rightarrow> (npfloat \<times> npfloat) list \<Rightarrow> 'tex \<Rightarrow> exc + string"
  save_texture :: "'tex \<Rightarrow> exc + string"
  export_glb :: "trianglemesh \<Rightarrow> (npfloat \<times> npfloat) list \<Rightarrow> 'tex \<Rightarrow> exc + string"
  json_dump :: "stats \<Rightarrow> string"

definition export_obj_glb ::
  "('img, 'tex) media \<Rightarrow> trianglemesh \<Rightarrow> (npfloat \<times> npfloat) list \<Rightarrow> string \<Rightarrow> string
     \<Rightarrow> (string \<times> string \<times> string) io" where
  "export_obj_glb M mesh uv texture_path out_dir =
     (let obj_path = out_dir @ ''/model.obj'';
          mtl_path = out_dir @ ''/model.mtl'';
          glb_path = out_dir @ ''/model.glb''
      in
      io_then (\<lambda>fs. ((case read_file fs texture_path of
                         None \<Rightarrow> Inl (FileNotFoundError texture_path)
                       | Some bytes \<Rightarrow> open_image M bytes), fs)) (\<lambda>tex.
      io_then (call (export_obj M mesh uv tex)) (\<lambda>obj_str.
      io_then (put_file obj_path obj_str) (\<lambda>_.
      let tex_out = out_dir @ ''/texture.png'' in
      io_then (call (save_texture M tex)) (\<lambda>png.
      io_then (put_file tex_out png) (\<lambda>_.
      io_then (call (export_glb M mesh uv tex)) (\<lambda>glb.
      io_then (put_file glb_path glb) (\<lambda>_.
        call (Inr (obj_path, glb_path, tex_out))))))))))"

definition write_stats :: "('img, 'tex) media \<Rightarrow> o3d \<Rightarrow> trianglemesh \<Rightarrow> string \<Rightarrow> stats io" where
  "write_stats M O3 mesh out_dir =
     io_then (call (mesh_bounding_box O3 mesh)) (\<lambda>(lo, _).
     io_then (call (mesh_bounding_box O3 mesh)) (\<lambda>(_, hi).
       let stats = \<lparr>stat_vertices = length (vertices mesh),
                    stat_faces = length (triangles mesh),
                    stat_bbox_min = lo, stat_bbox_max = hi\<rparr>
       in io_then (put_file (out_dir @ ''/stats.json'') (json_dump M stats)) (\<lambda>_.
            call (Inr stats))))"

text \<open>
  \<^verbatim>\<open>run_single_image\<close>. Of its progress messages the model keeps what can raise: the one
  after the depth estimate evaluates \<^verbatim>\<open>depth.min()\<close> and \<^verbatim>\<open>depth.max()\<close>.
\<close>

definition run_single_image ::
  "('img, 'tex) media \<Rightarrow> ('model, 'tfm) hub \<Rightarrow> ('model, 'tfm, 'img) vision \<Rightarrow> o3d
     \<Rightarrow> string \<Rightarrow> string \<Rightarrow> unit io" where
  "run_single_image M Hub V O3 input_path output_dir =
     (case imread M input_path of
        None \<Rightarrow> call (Inl (FileNotFoundError (''Failed to read image: '' @ input_path)))
      | Some image_bgr \<Rightarrow>
          (let (h, w) = im_shape M image_bgr;
               dev = (if cuda_is_available M then Cuda else Cpu)
           in
           io_then (call (load_midas Hub dev)) (\<lambda>(model, transform).
           io_then (call (estimate_depth V model transform image_bgr dev)) (\<lambda>depth.
           io_then (call (amin depth)) (\<lambda>_.
           io_then (call (amax depth)) (\<lambda>_.
           let K = infer_intrinsics (int w) (int h) None;
               pcd = depth_to_pointcloud depth K
           in
           io_then (call (clean_pointcloud O3 pcd)) (\<lambda>pcd.
           io_then (call (reconstruct_mesh O3 pcd)) (\<lambda>mesh.
           let uv = compute_uv mesh K (int w) (int h);
               out_dir = output_dir;
               texture_path = out_dir @ ''/texture.png''
           in
           io_then (call (save_image M image_bgr)) (\<lambda>png.
           io_then (put_file texture_path png) (\<lambda>_.
           io_then (export_obj_glb M mesh uv texture_path out_dir) (\<lambda>(obj_path, glb_path, tex_out).
           io_then (write_stats M O3 mesh out_dir) (\<lambda>stats.
             call (Inr ())))))))))))))"

section \<open>Example collaborators\<close>

text \<open>
  Concrete collaborators on which the theorems below are instantiated: a depth network
  that answers a constant map, and one that answers a map of float32 numbers whose
  largest and smallest value are \<open>2 ^ 127\<close> and its negative; the filter of both returns
  its input.
\<close>

definition vision_const :: "('model, 'tfm, 'img) vision" where
  "vision_const = \<lparr>predict = (\<lambda>_ _ _ _. Inr [[Fin 5, Fin 5], [Fin 5, Fin 5]]),
                   bilateralFilter = (\<lambda>a _ _ _. Inr a)\<rparr>"

definition wide_depth :: ndarray where
  "wide_depth = [[Fin (- (2 ^ 127)), Fin (2 ^ 127)], [Fin 0, Fin 0]]"

definition vision_wide :: "('model, 'tfm, 'img) vision" where
  "vision_wide = \<lparr>predict = (\<lambda>_ _ _ _. Inr wide_depth),
                  bilateralFilter = (\<lambda>a _ _ _. Inr a)\<rparr>"

text \<open>
  A hub on which every variant fails, the first with a message of the caller's choice,
  and one on which only the largest variant fails.
\<close>

definition hub_failing :: "string \<Rightarrow> (unit, string) hub" where
  "hub_failing m =
     \<lparr>load_transforms = Inr \<lparr>small_transform = ''small_transform'', dpt_transform = ''dpt_transform''\<rparr>,
      load_model = (\<lambda>name. Inl (OtherException
         (if name = ''DPT_Large'' then m
          else if name = ''DPT_Hybrid'' then ''hybrid: download failed''
          else ''small: download failed''))),
      eval_to = (\<lambda>model dev. Inr model)\<rparr>"

definition hub_hybrid :: "(string, string) hub" where
  "hub_hybrid =
     \<lparr>load_transforms = Inr \<lparr>small_transform = ''small_transform'', dpt_transform = ''dpt_transform''\<rparr>,
      load_model = (\<lambda>name. if name = ''DPT_Large'' then Inl (OtherException ''out of memory'')
                            else Inr name),
      eval_to = (\<lambda>model dev. Inr model)\<rparr>"

text \<open>
  A stand-in for Open3D. Cleanup keeps the cloud and gives every point a normal. The
  Poisson reconstruction raises on a cloud that has no normals, which is a cloud without
  points or with another number of normals than points, as the library does; otherwise it
  spans one triangle over the first three points (none when there are fewer). The repairs
  keep the mesh, and decimation keeps the first \<open>target\<close> triangles. \<open>o3d_marking\<close>
  differs in the decimation alone, which raises, so that a call of it shows in the result.
\<close>

definition has_normals :: "pointcloud \<Rightarrow> bool" where
  "has_normals pcd = (points pcd \<noteq> [] \<and> length (normals pcd) = length (points pcd))"

definition o3d_stub :: o3d where
  "o3d_stub =
     \<lparr>voxel_down_sample = (\<lambda>pcd size. Inr pcd),
      remove_statistical_outlier = (\<lambda>pcd nb ratio. Inr (pcd, [0..<length (points pcd)])),
      estimate_normals = (\<lambda>pcd radius max_nn. Inr (map (\<lambda>p. (Fin 0, Fin 0, Fin 1)) (points pcd))),
      create_from_point_cloud_poisson = (\<lambda>pcd depth.
         if has_normals pcd
         then Inr (\<lparr>vertices = points pcd,
                    triangles = (if 3 \<le> length (points pcd) then [(0, 1, 2)] else []),
                    vertex_normals = []\<rparr>, [])
         else Inl (RuntimeError ''Point cloud has no normals'')),
      get_axis_aligned_bounding_box = (\<lambda>pcd. Inr ((Fin 0, Fin 0, Fin 0), (Fin 0, Fin 0, Fin 0))),
      crop = (\<lambda>mesh box. Inr mesh),
      remove_degenerate_triangles = Inr,
      remove_duplicated_triangles = Inr,
      remove_duplicated_vertices = Inr,
      remove_non_manifold_edges = Inr,
      filter_smooth_simple = (\<lambda>mesh n. Inr mesh),
      simplify_quadric_decimation = (\<lambda>mesh target.
         Inr (mesh\<lparr>triangles := take target (triangles mesh)\<rparr>)),
      compute_vertex_normals = (\<lambda>mesh. Inr (map (\<lambda>p. (Fin 0, Fin 0, Fin 1)) (vertices mesh))),
      mesh_bounding_box = (\<lambda>mesh. Inr ((Fin 0, Fin 0, Fin 0), (Fin 0, Fin 0, Fin 0)))\<rparr>"

definition o3d_marking :: o3d where
  "o3d_marking =
     o3d_stub\<lparr>simplify_quadric_decimation :=
       (\<lambda>mesh target. Inl (OtherException ''simplify_quadric_decimation called''))\<rparr>"

text \<open>
  A strip of \<open>n\<close> triangles over \<open>n + 2\<close> vertices, a stand-in \<open>o3d_dense\<close> whose
  reconstruction answers the strip of 150001 triangles, and \<open>o3d_stalling\<close>, whose
  decimation in addition stops before it has removed a triangle.
\<close>

definition strip_mesh :: "nat \<Rightarrow> trianglemesh" where
  "strip_mesh n =
     \<lparr>vertices = map (\<lambda>i. (Fin (real i), Fin (real (i mod 2)), Fin 1)) [0..<n + 2],
      triangles = map (\<lambda>i. (i, i + 1, i + 2)) [0..<n],
      vertex_normals = []\<rparr>"

definition o3d_dense :: o3d where
  "o3d_dense =
     o3d_stub\<lparr>create_from_point_cloud_poisson :=
       (\<lambda>pcd depth. if has_normals pcd then Inr (strip_mesh 150001, [])
                      else Inl (RuntimeError ''Point cloud has no normals''))\<rparr>"

definition o3d_stalling :: o3d where
  "o3d_stalling = o3d_dense\<lparr>simplify_quadric_decimation := (\<lambda>mesh target. Inr mesh)\<rparr>"

definition three_points :: pointcloud where
  "three_points =
     \<lparr>points = [(Fin 0, Fin 0, Fin 1), (Fin 1, Fin 0, Fin 1), (Fin 0, Fin 1, Fin 1)],
      normals = [(Fin 0, Fin 0, Fin 1), (Fin 0, Fin 0, Fin 1), (Fin 0, Fin 0, Fin 1)]\<rparr>"

definition one_triangle :: trianglemesh where
  "one_triangle =
     \<lparr>vertices = [(Fin 0, Fin 0, Fin 1), (Fin 1, Fin 0, Fin 1), (Fin 0, Fin 1, Fin 1)],
      triangles = [(0, 1, 2)],
      vertex_normals = []\<rparr>"

text \<open>A mesh with one vertex at depth \<open>-0.000001\<close>, on the optical axis.\<close>

definition singular_mesh :: trianglemesh where
  "singular_mesh =
     \<lparr>vertices = [(Fin 0, Fin 0, Fin (- (1 / 1000000)))], triangles = [], vertex_normals = []\<rparr>"

text \<open>
  Stand-ins for the image and encoding libraries that never raise: one image of 2 by 2
  pixels can be read, and an encoded mesh shows one mark per triangle.
\<close>

definition media_stub :: "(string, string) media" where
  "media_stub =
     \<lparr>imread = (\<lambda>path. if path = ''room.jpg'' then Some ''gray'' else None),
      im_shape = (\<lambda>img. (2, 2)),
      cuda_is_available = False,
      save_image = (\<lambda>img. Inr (''png:'' @ img)),
      open_image = Inr,
      export_obj = (\<lambda>mesh uv tex. Inr (''obj:'' @ map (\<lambda>t. CHR ''f'') (triangles mesh))),
      save_texture = Inr,
      export_glb = (\<lambda>mesh uv tex. Inr (''glb:'' @ map (\<lambda>t. CHR ''f'') (triangles mesh))),
      json_dump = (\<lambda>s. ''vertices:'' @ replicate (stat_vertices s) CHR ''v''
                        @ '' faces:'' @ replicate (stat_faces s) CHR ''f'')\<rparr>"

section \<open>Properties\<close>

subsection \<open>Floating point\<close>

lemma expo_bounds: "0 < x \<Longrightarrow> 2 powi (expo x) \<le> x \<and> x < 2 powi (expo x + 1)"
proof (induction x rule: expo.induct)
  case (1 x)
  show ?case
  proof (cases "2 \<le> x")
    case True
    then have e: "expo x = expo (x / 2) + 1" by (subst expo.simps) simp
    from "1.IH"(1) [OF True] "1.prems"
    have "2 powi (expo (x / 2)) \<le> x / 2" "x / 2 < 2 powi (expo (x / 2) + 1)" by simp_all
    moreover have "(2::real) powi (expo (x / 2) + 1) = 2 * 2 powi (expo (x / 2))"
      by (simp add: power_int_add)
    moreover have "(2::real) powi (expo (x / 2) + 1 + 1) = 2 * 2 powi (expo (x / 2) + 1)"
      by (simp add: power_int_add)
    ultimately show ?thesis by (simp add: e)
  next
    case False
    show ?thesis
    proof (cases "x < 1")
      case True
      with False "1.prems" have e: "expo x = expo (2 * x) - 1" by (subst expo.simps) simp
      from "1.IH"(2) [OF False] True "1.prems"
      have "2 powi (expo (2 * x)) \<le> 2 * x" "2 * x < 2 powi (expo (2 * x) + 1)" by simp_all
      moreover have "(2::real) powi (expo (2 * x) + 1) = 2 * 2 powi (expo (2 * x))"
        by (simp add: power_int_add)
      moreover have "(2::real) powi (expo (2 * x) - 1) = 2 powi (expo (2 * x)) / 2"
        by (simp add: power_int_diff)
      ultimately show ?thesis by (simp add: e)
    next
      case F2: False
      with False have "expo x = 0" by (subst expo.simps) simp
      with False F2 show ?thesis by simp
    qed
  qed
qed

lemma expo_unique:
  assumes "2 powi k \<le> x" and "x < 2 powi (k + 1)"
  shows "expo x = k"
proof -
  have "(0::real) < 2 powi k" by simp
  with assms(1) have pos: "0 < x" by linarith
  from expo_bounds [OF pos] have b: "2 powi (expo x) \<le> x" "x < 2 powi (expo x + 1)" by simp_all
  have "(2::real) powi k < 2 powi (expo x + 1)" using assms(1) b(2) by linarith
  then have 1: "k < expo x + 1"
    using power_int_increasing [of "expo x + 1" k "2::real"] by (cases "k < expo x + 1") auto
  have "(2::real) powi (expo x) < 2 powi (k + 1)" using assms(2) b(1) by linarith
  then have 2: "expo x < k + 1"
    using power_int_increasing [of "k + 1" "expo x" "2::real"] by (cases "expo x < k + 1") auto
  from 1 2 show ?thesis by simp
qed

lemma round_even_of_int [simp]: "round_even (of_int n) = n"
  by (simp add: round_even_def)

lemma round_to_exact:
  assumes "x \<noteq> 0"
      and "x / 2 powi (max (expo \<bar>x\<bar>) emin - int p + 1) = of_int n"
      and "\<bar>x\<bar> < 2 powi (emax + 1)"
  shows "round_to p emin emax x = Fin x"
proof -
  have "of_int n * 2 powi (max (expo \<bar>x\<bar>) emin - int p + 1) = x"
    using assms(2) by (simp add: field_simps)
  then show ?thesis
    using assms(1,3) unfolding round_to_def Let_def assms(2) by simp
qed

text \<open>An integer below \<open>2 ^ 24\<close>, scaled by a power of two, is a number of the format.\<close>

lemma dyadic_exact:
  fixes W :: int
  assumes "0 < W" "W < 2 ^ 24" "24 \<le> p" "emin \<le> s" "s + 23 \<le> emax"
  shows "round_to p emin emax (real_of_int W * 2 powi s) = Fin (real_of_int W * 2 powi s)"
proof -
  define x where "x = real_of_int W * 2 powi s"
  define e where "e = expo \<bar>x\<bar>"
  have pos: "0 < x" using assms(1) by (simp add: x_def)
  from expo_bounds [of "\<bar>x\<bar>"] pos
  have b: "2 powi e \<le> x" "x < 2 powi (e + 1)" by (simp_all add: e_def)
  have "real_of_int W < 2 ^ 24" using assms(2) by (metis of_int_less_iff of_int_numeral of_int_power)
  then have "x < 2 ^ 24 * 2 powi s" by (simp add: x_def)
  also have "\<dots> = 2 powi (24 + s)" by (simp add: power_int_add)
  finally have hi: "x < 2 powi (24 + s)" .
  with b(1) have "(2::real) powi e < 2 powi (24 + s)" by linarith
  then have e_hi: "e < 24 + s"
    using power_int_increasing [of "24 + s" e "2::real"] by (cases "e < 24 + s") auto
  have "1 \<le> real_of_int W" using assms(1) by linarith
  then have "2 powi s \<le> x" by (simp add: x_def)
  with b(2) have "(2::real) powi s < 2 powi (e + 1)" by linarith
  then have e_lo: "s < e + 1"
    using power_int_increasing [of "e + 1" s "2::real"] by (cases "s < e + 1") auto
  have m: "max e emin = e" using e_lo assms(4) by simp
  define k where "k = nat (s + int p - 1 - e)"
  have k: "int k = s + int p - 1 - e" using e_hi assms(3) by (simp add: k_def)
  have "x / 2 powi (e - int p + 1) = real_of_int W * (2 powi s / 2 powi (e - int p + 1))"
    by (simp add: x_def)
  also have "2 powi s / 2 powi (e - int p + 1) = (2::real) powi (s + int p - 1 - e)"
    by (simp add: power_int_diff power_int_add field_simps)
  also have "(2::real) powi (s + int p - 1 - e) = 2 ^ k"
    using k by (metis power_int_of_nat)
  also have "real_of_int W * 2 ^ k = of_int (W * 2 ^ k)" by simp
  finally have q: "x / 2 powi (max (expo \<bar>x\<bar>) emin - int p + 1) = of_int (W * 2 ^ k)"
    using m by (simp add: e_def)
  have "\<bar>x\<bar> < 2 powi (24 + s)" using hi pos by simp
  also have "(2::real) powi (24 + s) \<le> 2 powi (emax + 1)"
    using assms(5) by (intro power_int_increasing) auto
  finally have r: "\<bar>x\<bar> < 2 powi (emax + 1)" .
  from pos have "x \<noteq> 0" by simp
  from round_to_exact [OF this q r] show ?thesis by (simp add: x_def)
qed

lemma float_of_small_int:
  assumes "0 < W" "W < 2 ^ 24"
  shows "float64 (Fin (real_of_int W)) = Fin (real_of_int W)"
    and "float32 (Fin (real_of_int W)) = Fin (real_of_int W)"
  using dyadic_exact [OF assms, of 53 "- 1022" 0 1023] dyadic_exact [OF assms, of 24 "- 126" 0 127]
  by (simp_all add: float32.simps float64.simps)

lemma float_of_small_half:
  assumes "0 < W" "W < 2 ^ 24"
  shows "float64 (Fin (real_of_int W / 2)) = Fin (real_of_int W / 2)"
    and "float32 (Fin (real_of_int W / 2)) = Fin (real_of_int W / 2)"
  using dyadic_exact [OF assms, of 53 "- 1022" "- 1" 1023] dyadic_exact [OF assms, of 24 "- 126" "- 1" 127]
  by (simp_all add: power_int_minus field_simps float32.simps float64.simps)

lemma float32_zero_one [simp]: "float32 (Fin 0) = Fin 0" "float32 (Fin 1) = Fin 1"
  using float_of_small_int(2) [of 1] by (simp_all add: round_to_def float32.simps)


lemma round_to_at:
  assumes "2 powi k \<le> \<bar>x\<bar>" and "\<bar>x\<bar> < 2 powi (k + 1)"
  shows "round_to p emin emax x =
     (let ulp = 2 powi (max k emin - int p + 1);
          y = of_int (round_even (x / ulp)) * ulp
      in if 2 powi (emax + 1) \<le> \<bar>y\<bar> then (if 0 < x then PInf else NInf) else Fin y)"
proof -
  have "(0::real) < 2 powi k" by simp
  with assms(1) have "0 < \<bar>x\<bar>" by linarith
  then have "x \<noteq> 0" by simp
  then show ?thesis
    by (simp add: round_to_def expo_unique [OF assms] Let_def)
qed

lemma f64_12: "float64 (Fin (6 / 5)) = Fin (5404319552844595 / 4503599627370496)"
  using round_to_at [of 0 "6 / 5" 53 "- 1022" 1023]
  by (simp add: Let_def round_even_def power_int_minus float64.simps)

lemma f32_12: "float32 (Fin (5404319552844595 / 4503599627370496)) = Fin (5033165 / 4194304)"
  using round_to_at [of 0 "5404319552844595 / 4503599627370496" 24 "- 126" 127]
  by (simp add: Let_def round_even_def power_int_minus float32.simps)

lemma f64_768: "float64 (Fin (5404319552844595 / 4503599627370496 * 640)) = Fin 768"
  using round_to_at [of 9 "5404319552844595 / 4503599627370496 * 640" 53 "- 1022" 1023]
  by (simp add: Let_def round_even_def power_int_minus float64.simps)

lemma f64_wide: "float64 (Fin 16777217) = Fin 16777217"
  using round_to_at [of 24 16777217 53 "- 1022" 1023]
  by (simp add: Let_def round_even_def power_int_minus float64.simps)

lemma f64_wide_half: "float64 (Fin (16777217 / 2)) = Fin (16777217 / 2)"
  using round_to_at [of 23 "16777217 / 2" 53 "- 1022" 1023]
  by (simp add: Let_def round_even_def power_int_minus float64.simps)

lemma f32_wide_half: "float32 (Fin (16777217 / 2)) = Fin 8388608"
  using round_to_at [of 23 "16777217 / 2" 24 "- 126" 127]
  by (simp add: Let_def round_even_def power_int_minus float32.simps)

lemma f64_big: "float64 (Fin (2 ^ 130)) = Fin (2 ^ 130)"
  using round_to_at [of 130 "2 ^ 130" 53 "- 1022" 1023]
  by (simp add: Let_def round_even_def power_int_minus float64.simps)

lemma f32_big: "float32 (Fin (2 ^ 130)) = PInf"
  using round_to_at [of 130 "2 ^ 130" 24 "- 126" 127]
  by (simp add: Let_def round_even_def power_int_minus float32.simps)

lemma focal_unit: "float32 (float64 (fmul (float64 (Fin (6 / 5))) (Fin 1))) = Fin (5033165 / 4194304)"
proof -
  have "fmul (float64 (Fin (6 / 5))) (Fin 1) = Fin (5404319552844595 / 4503599627370496)"
    by (simp add: f64_12)
  moreover have "float64 (Fin (5404319552844595 / 4503599627370496)) =
      Fin (5404319552844595 / 4503599627370496)"
    using round_to_at [of 0 "5404319552844595 / 4503599627370496" 53 "- 1022" 1023]
    by (simp add: Let_def round_even_def power_int_minus float64.simps)
  ultimately show ?thesis by (simp only: f32_12)
qed

lemma focal_vga: "float32 (float64 (fmul (float64 (Fin (6 / 5))) (Fin 640))) = Fin 768"
proof -
  have "fmul (float64 (Fin (6 / 5))) (Fin 640) = Fin (5404319552844595 / 4503599627370496 * 640)"
    by (simp add: f64_12)
  moreover have "float32 (Fin 768) = Fin 768"
    using float_of_small_int(2) [of 768] by simp
  ultimately show ?thesis by (simp only: f64_768)
qed

text \<open>
  Rounding to nearest moves a number of the normal range by at most the fraction
  \<open>2 ^ - p\<close> of its magnitude.
\<close>

lemma round_even_error: "\<bar>of_int (round_even q) - q\<bar> \<le> 1 / 2"
proof -
  have "of_int \<lfloor>q\<rfloor> \<le> q" "q < of_int \<lfloor>q\<rfloor> + 1" by linarith+
  then show ?thesis by (auto simp: round_even_def Let_def)
qed

lemma round_to_error:
  assumes lo: "2 powi emin \<le> \<bar>x\<bar>" and hi: "\<bar>x\<bar> < 2 powi emax"
  shows "\<exists>y. round_to p emin emax x = Fin y \<and> \<bar>y - x\<bar> \<le> \<bar>x\<bar> * 2 powi (- int p)"
proof -
  have "(0::real) < 2 powi emin" by simp
  with lo have pos: "0 < \<bar>x\<bar>" by linarith
  then have nz: "x \<noteq> 0" by simp
  define e where "e = expo \<bar>x\<bar>"
  from expo_bounds [OF pos] have b: "2 powi e \<le> \<bar>x\<bar>" "\<bar>x\<bar> < 2 powi (e + 1)" by (simp_all add: e_def)
  have "(2::real) powi emin < 2 powi (e + 1)" using lo b(2) by linarith
  then have "emin < e + 1"
    using power_int_increasing [of "e + 1" emin "2::real"] by (cases "emin < e + 1") auto
  then have m: "max e emin = e" by simp
  define ulp :: real where "ulp = 2 powi (e - int p + 1)"
  have ulp: "0 < ulp" by (simp add: ulp_def)
  define y where "y = of_int (round_even (x / ulp)) * ulp"
  have "\<bar>y - x\<bar> = \<bar>of_int (round_even (x / ulp)) - x / ulp\<bar> * ulp"
  proof -
    have "y - x = (of_int (round_even (x / ulp)) - x / ulp) * ulp"
      using ulp by (simp add: y_def field_simps)
    then show ?thesis using ulp by (simp add: abs_mult)
  qed
  also have "\<dots> \<le> 1 / 2 * ulp"
    using round_even_error [of "x / ulp"] ulp by (intro mult_right_mono) simp_all
  also have "1 / 2 * ulp = 2 powi e * 2 powi (- int p)"
  proof -
    have "ulp = 2 powi (e - int p) * 2 powi 1"
      unfolding ulp_def using power_int_add [of "2::real" "e - int p" 1] by simp
    moreover have "(2::real) powi (e - int p) = 2 powi e * 2 powi (- int p)"
      using power_int_add [of "2::real" e "- int p"] by simp
    ultimately show ?thesis by simp
  qed
  also have "\<dots> \<le> \<bar>x\<bar> * 2 powi (- int p)"
    using b(1) by (intro mult_right_mono) simp_all
  finally have err: "\<bar>y - x\<bar> \<le> \<bar>x\<bar> * 2 powi (- int p)" .
  have "(2::real) powi (- int p) \<le> 1"
    using power_int_increasing [of "- int p" 0 "2::real"] by simp
  then have "\<bar>x\<bar> * 2 powi (- int p) \<le> \<bar>x\<bar> * 1"
    by (intro mult_left_mono) simp_all
  with err have "\<bar>y\<bar> \<le> 2 * \<bar>x\<bar>" by linarith
  also have "\<dots> < 2 * 2 powi emax" using hi by simp
  also have "\<dots> = 2 powi (emax + 1)" by (simp add: power_int_add)
  finally have "\<not> 2 powi (emax + 1) \<le> \<bar>y\<bar>" by simp
  then have "round_to p emin emax x = Fin y"
    by (simp add: round_to_def nz Let_def m e_def [symmetric] ulp_def [symmetric] y_def [symmetric])
  with err show ?thesis by blast
qed

lemma focal_error:
  fixes M :: int
  assumes "0 < M" "M < 2 ^ 24"
  shows "\<exists>v. float32 (float64 (fmul (float64 (Fin (6 / 5))) (Fin (real_of_int M)))) = Fin v
           \<and> \<bar>v - 6 / 5 * real_of_int M\<bar> \<le> 6 / 5 * real_of_int M / 2 ^ 22"
proof -
  define m where "m = real_of_int M"
  have m: "1 \<le> m" "m < 2 ^ 24" using assms by (simp_all add: m_def)
  define x where "x = 5404319552844595 / 4503599627370496 * m"
  have x: "x = 6 / 5 * m - m / (5 * 2 ^ 52)" by (simp add: x_def)
  have xb: "1 \<le> x" "x < 2 ^ 25" using m by (simp_all add: x_def)
  have p: "fmul (float64 (Fin (6 / 5))) (Fin m) = Fin x" by (simp add: f64_12 x_def)
  have "2 powi (- 1022) \<le> \<bar>x\<bar>"
  proof -
    have "(2::real) powi (- 1022) \<le> 2 powi 0" by (intro power_int_increasing) simp_all
    with xb(1) show ?thesis by simp
  qed
  moreover have "\<bar>x\<bar> < 2 powi 1023"
  proof -
    have "(2::real) powi 25 \<le> 2 powi 1023" by (intro power_int_increasing) simp_all
    moreover have "(2::real) powi 25 = 2 ^ 25" by simp
    ultimately show ?thesis using xb by linarith
  qed
  ultimately obtain y where y: "round_to 53 (- 1022) 1023 x = Fin y"
      and ye: "\<bar>y - x\<bar> \<le> \<bar>x\<bar> * 2 powi (- int 53)"
    using round_to_error [of "- 1022" x 1023 53] by blast
  have p53: "(2::real) powi (- int 53) = 1 / 2 ^ 53" by (simp add: power_int_minus field_simps)
  have ye': "\<bar>y - x\<bar> \<le> x / 2 ^ 53" using ye xb(1) by (simp add: p53)
  have yb: "1 / 2 \<le> y" "y < 2 ^ 26"
  proof -
    have "x / 2 ^ 53 \<le> x / 2" using xb(1) by (intro divide_left_mono) simp_all
    with ye' have "\<bar>y - x\<bar> \<le> x / 2" by linarith
    then have "x / 2 \<le> y" "y \<le> x + x / 2" by linarith+
    with xb show "1 / 2 \<le> y" "y < 2 ^ 26" by simp_all
  qed
  have "2 powi (- 126) \<le> \<bar>y\<bar>"
  proof -
    have "(2::real) powi (- 126) \<le> 2 powi (- 1)" by (intro power_int_increasing) simp_all
    moreover have "(2::real) powi (- 1) = 1 / 2" by (simp add: power_int_minus)
    ultimately show ?thesis using yb(1) by linarith
  qed
  moreover have "\<bar>y\<bar> < 2 powi 127"
  proof -
    have "(2::real) powi 26 \<le> 2 powi 127" by (intro power_int_increasing) simp_all
    moreover have "(2::real) powi 26 = 2 ^ 26" by simp
    ultimately show ?thesis using yb by linarith
  qed
  ultimately obtain v where v: "round_to 24 (- 126) 127 y = Fin v"
      and ve: "\<bar>v - y\<bar> \<le> \<bar>y\<bar> * 2 powi (- int 24)"
    using round_to_error [of "- 126" y 127 24] by blast
  have p24: "(2::real) powi (- int 24) = 1 / 2 ^ 24" by (simp add: power_int_minus field_simps)
  have ve': "\<bar>v - y\<bar> \<le> y / 2 ^ 24" using ve yb(1) by (simp add: p24)
  have "float32 (float64 (fmul (float64 (Fin (6 / 5))) (Fin m))) = Fin v"
  proof -
    have a: "float64 (Fin x) = Fin y" by (simp only: float64.simps y)
    have b: "float32 (Fin y) = Fin v" by (simp only: float32.simps v)
    show ?thesis by (simp only: p a b)
  qed
  moreover have "\<bar>v - 6 / 5 * m\<bar> \<le> 6 / 5 * m / 2 ^ 22"
  proof -
    define d where "d = m / (5 * 2 ^ 52)"
    define t where "t = 6 / 5 * m"
    have d: "0 \<le> d" "d \<le> t / 2 ^ 53" using m by (simp_all add: d_def t_def field_simps)
    have xt: "x = t - d" using x by (simp add: d_def t_def)
    have t: "0 \<le> t" using m by (simp add: t_def)
    have xle: "x \<le> t" using xt d by simp
    have "x / 2 ^ 53 \<le> t / 2 ^ 53" using xle by (intro divide_right_mono) simp_all
    with ye' have 1: "\<bar>y - x\<bar> \<le> t / 2 ^ 53" by linarith
    have "t / 2 ^ 53 \<le> t" using t by (simp add: field_simps)
    with 1 xle have "y \<le> 2 * t" by linarith
    then have "y / 2 ^ 24 \<le> 2 * t / 2 ^ 24" by (intro divide_right_mono) simp_all
    with ve' have 2: "\<bar>v - y\<bar> \<le> t / 2 ^ 23" by simp
    have 3: "\<bar>x - t\<bar> \<le> t / 2 ^ 53" using xt d by simp
    have "\<bar>v - t\<bar> \<le> \<bar>v - y\<bar> + \<bar>y - x\<bar> + \<bar>x - t\<bar>" by linarith
    also have "\<dots> \<le> t / 2 ^ 23 + t / 2 ^ 53 + t / 2 ^ 53"
      using 1 2 3 by linarith
    also have "\<dots> \<le> t / 2 ^ 22" using t by (simp add: field_simps)
    finally have "\<bar>v - t\<bar> \<le> t / 2 ^ 22" .
    then show ?thesis by (simp only: t_def)
  qed
  ultimately show ?thesis unfolding m_def by blast
qed

subsection \<open>The intrinsics estimator\<close>

lemma intrinsics_vga:
  "infer_intrinsics 640 480 None =
     ((Fin 768, Fin 0, Fin 320), (Fin 0, Fin 768, Fin 240), (Fin 0, Fin 0, Fin 1))"
proof -
  have w: "float64 (Fin 640) = Fin 640" "float64 (Fin 480) = Fin 480"
    using float_of_small_int(1) [of 640] float_of_small_int(1) [of 480] by simp_all
  have c: "float64 (Fin 320) = Fin 320" "float64 (Fin 240) = Fin 240"
          "float32 (Fin 320) = Fin 320" "float32 (Fin 240) = Fin 240"
    using float_of_small_int [of 320] float_of_small_int [of 240] by simp_all
  show ?thesis
    by (simp add: infer_intrinsics_def Let_def w c focal_vga)
qed

text \<open>
  C5 (as amended). For image sizes \<open>W\<close> and \<open>H\<close> that are positive and below \<open>2 ^ 24\<close> the
  intrinsics estimator puts the principal point at exactly \<open>(W / 2, H / 2)\<close>. The two focal
  lengths are equal. Without an override they are the float32 value of the float64
  product of \<open>1.2\<close> and \<open>max W H\<close>, a number within the fraction \<open>2 ^ - 22\<close> of
  \<open>1.2 * max W H\<close>; with an override they are the float32 value of the override.
\<close>

theorem infer_intrinsics_contract:
  assumes "0 < W" "W < 2 ^ 24" "0 < H" "H < 2 ^ 24"
  shows "K02 (infer_intrinsics W H ov) = Fin (real_of_int W / 2)
       \<and> K12 (infer_intrinsics W H ov) = Fin (real_of_int H / 2)
       \<and> K00 (infer_intrinsics W H ov) = K11 (infer_intrinsics W H ov)
       \<and> K00 (infer_intrinsics W H None) =
           float32 (float64 (fmul (float64 (Fin (12 / 10))) (Fin (real_of_int (max W H)))))
       \<and> (\<exists>v. K00 (infer_intrinsics W H None) = Fin v
              \<and> \<bar>v - 12 / 10 * real_of_int (max W H)\<bar> \<le> 12 / 10 * real_of_int (max W H) / 2 ^ 22)
       \<and> K00 (infer_intrinsics W H (Some f)) = float32 (float64 f)"
proof -
  have m: "0 < max W H" "max W H < 2 ^ 24" using assms by simp_all
  have k: "K00 (infer_intrinsics W H None) =
           float32 (float64 (fmul (float64 (Fin (6 / 5))) (Fin (real_of_int (max W H)))))"
    by (simp add: infer_intrinsics_def Let_def K00_def float_of_small_int(1) [OF m])
  from focal_error [OF m] obtain v
    where v: "float32 (float64 (fmul (float64 (Fin (6 / 5))) (Fin (real_of_int (max W H))))) = Fin v"
      and e: "\<bar>v - 6 / 5 * real_of_int (max W H)\<bar> \<le> 6 / 5 * real_of_int (max W H) / 2 ^ 22"
    by blast
  have b: "\<exists>v. K00 (infer_intrinsics W H None) = Fin v
              \<and> \<bar>v - 12 / 10 * real_of_int (max W H)\<bar> \<le> 12 / 10 * real_of_int (max W H) / 2 ^ 22"
  proof -
    have "(12::real) / 10 = 6 / 5" by simp
    with k v e show ?thesis by (simp only:) blast
  qed
  have r: "K02 (infer_intrinsics W H ov) = Fin (real_of_int W / 2)
       \<and> K12 (infer_intrinsics W H ov) = Fin (real_of_int H / 2)
       \<and> K00 (infer_intrinsics W H ov) = K11 (infer_intrinsics W H ov)
       \<and> K00 (infer_intrinsics W H None) =
           float32 (float64 (fmul (float64 (Fin (12 / 10))) (Fin (real_of_int (max W H)))))
       \<and> K00 (infer_intrinsics W H (Some f)) = float32 (float64 f)"
    by (simp add: infer_intrinsics_def Let_def K00_def K02_def K11_def K12_def
        float_of_small_int(1) [OF assms(1,2)] float_of_small_int(1) [OF assms(3,4)]
        float_of_small_half [OF assms(1,2)] float_of_small_half [OF assms(3,4)]
        float_of_small_int(1) [OF m])
  from r b show ?thesis by blast
qed

theorem infer_intrinsics_contract_witness:
  "(0::int) < 640 \<and> (640::int) < 2 ^ 24 \<and> (0::int) < 480 \<and> (480::int) < 2 ^ 24
   \<and> K02 (infer_intrinsics 640 480 None) = Fin 320
   \<and> K12 (infer_intrinsics 640 480 None) = Fin 240
   \<and> K00 (infer_intrinsics 640 480 None) = Fin 768
   \<and> K11 (infer_intrinsics 640 480 None) = Fin 768
   \<and> K00 (infer_intrinsics 640 480 (Some (Fin 500))) = Fin 500"
  using infer_intrinsics_contract [of 640 480 None "Fin 500"] float_of_small_int [of 500]
  by (auto simp: focal_vga)

text \<open>
  The claim as stated fails: the focal length is not \<open>1.2 * max W H\<close> for the image of one
  pixel, where it is the float32 nearest to \<open>1.2\<close>; it is not the override for the
  override \<open>2 ^ 130\<close>, beyond the range of float32, where it is infinite; and the principal
  point is not at \<open>W / 2\<close> for the odd width \<open>2 ^ 24 + 1\<close>, whose half float32 rounds to
  \<open>2 ^ 23\<close>.
\<close>

theorem infer_intrinsics_rounds:
  "K00 (infer_intrinsics 1 1 None) = Fin (5033165 / 4194304)
   \<and> Fin (5033165 / 4194304) \<noteq> Fin (12 / 10 * real_of_int (max 1 1))
   \<and> K00 (infer_intrinsics 1 1 (Some (Fin (2 ^ 130)))) = PInf
   \<and> PInf \<noteq> Fin (2 ^ 130)
   \<and> K02 (infer_intrinsics 16777217 1 None) = Fin 8388608
   \<and> Fin 8388608 \<noteq> Fin (real_of_int 16777217 / 2)"
proof -
  have 1: "float64 (Fin 1) = Fin 1" using float_of_small_int(1) [of 1] by simp
  have 2: "K00 (infer_intrinsics 1 1 (Some (Fin (2 ^ 130)))) = PInf"
    unfolding infer_intrinsics_def Let_def K00_def
    by (simp only: option.case prod.case f64_big f32_big)
  have 3: "K00 (infer_intrinsics 1 1 None) = Fin (5033165 / 4194304)"
    by (simp add: infer_intrinsics_def Let_def K00_def 1 focal_unit)
  have "fdiv (Fin 16777217) (Fin 2) = Fin (16777217 / 2)" by simp
  then have "float32 (float64 (fdiv (float64 (Fin 16777217)) (Fin 2))) = Fin 8388608"
    by (simp only: f64_wide f64_wide_half f32_wide_half)
  then have 4: "K02 (infer_intrinsics 16777217 1 None) = Fin 8388608"
    by (simp add: infer_intrinsics_def Let_def K02_def)
  from 2 3 4 show ?thesis by simp
qed

subsection \<open>The back-projector\<close>

text \<open>
  The call run step by step in a store \<open>s\<close> that holds the depth map at address \<open>a\<close>:
  twelve arrays are allocated behind the cells of \<open>s\<close>, and the cloud is read off the
  scaled depth \<open>z = 3 * depth\<close> and the mask \<open>z > 0.001\<close>.
\<close>

lemma depth_to_pointcloud_st_char:
  fixes s :: store
  assumes a: "a < length s"
  shows "\<exists>X Y new. depth_to_pointcloud_st s a K =
      (PointCloud (map fst (filter snd
          (zip (map (\<lambda>(a, b, c). [a, b, c])
                  (zip X (zip Y (concat (arr_scalar fmul (s ! a) (Fin 3))))))
               (map (\<lambda>d. fgt d (Fin (1 / 1000))) (concat (arr_scalar fmul (s ! a) (Fin 3))))))),
       s @ new)"
proof -
  obtain H W where hw: "shape (deref s a) = (H, W)"
    by (cases "shape (deref s a)")
  define U where "U = map (\<lambda>i. map (\<lambda>j. Fin (real j)) [0..<W]) [0..<H]"
  define V where "V = map (\<lambda>i. map (\<lambda>j. Fin (real i)) [0..<W]) [0..<H]"
  define D where "D = s ! a"
  define Z where "Z = arr_scalar fmul D (Fin 3)"
  define T1 where "T1 = arr_scalar fsub U (K02 K)"
  define T2 where "T2 = arr_arr fmul T1 Z"
  define X where "X = arr_scalar fdiv T2 (K00 K)"
  define T3 where "T3 = arr_scalar fsub V (K12 K)"
  define T4 where "T4 = arr_arr fmul T3 Z"
  define Y where "Y = arr_scalar fdiv T4 (K11 K)"
  define P where "P = map (\<lambda>(a, b, c). [a, b, c]) (zip (concat X) (zip (concat Y) (concat Z)))"
  define R where "R = map fst (filter snd (zip P (map (\<lambda>d. fgt d (Fin (1 / 1000))) (concat Z))))"
  define n where "n = length s"
  define s2 where "s2 = s @ [U, V]"
  define s3 where "s3 = s @ [U, V, D]"
  define s4 where "s4 = s @ [U, V, D, Z]"
  define s5 where "s5 = s @ [U, V, D, Z, T1]"
  define s6 where "s6 = s @ [U, V, D, Z, T1, T2]"
  define s7 where "s7 = s @ [U, V, D, Z, T1, T2, X]"
  define s8 where "s8 = s @ [U, V, D, Z, T1, T2, X, T3]"
  define s9 where "s9 = s @ [U, V, D, Z, T1, T2, X, T3, T4]"
  define s10 where "s10 = s @ [U, V, D, Z, T1, T2, X, T3, T4, Y]"
  define s11 where "s11 = s @ [U, V, D, Z, T1, T2, X, T3, T4, Y, P]"
  define s12 where "s12 = s @ [U, V, D, Z, T1, T2, X, T3, T4, Y, P, R]"
  note sdefs = s2_def s3_def s4_def s5_def s6_def s7_def s8_def s9_def s10_def s11_def s12_def
  note odefs = np_meshgrid_def np_copy_def np_scalar_def np_arr_def np_stack3_def
    np_select_def alloc_def deref_def
  have e1: "np_meshgrid s [0..<W] [0..<H] = ((n, n + 1), s2)"
    by (simp add: odefs Let_def sdefs U_def V_def n_def)
  have e2: "np_copy s2 a = (n + 2, s3)"
    using a by (simp add: odefs sdefs D_def n_def nth_append)
  have e3: "np_scalar fmul s3 (n + 2) (Fin 3) = (n + 3, s4)"
    by (simp add: odefs sdefs Z_def n_def nth_append)
  have e4: "np_scalar fsub s4 n (K02 K) = (n + 4, s5)"
    by (simp add: odefs sdefs T1_def n_def nth_append)
  have e5: "np_arr fmul s5 (n + 4) (n + 3) = (n + 5, s6)"
    by (simp add: odefs sdefs T2_def n_def nth_append)
  have e6: "np_scalar fdiv s6 (n + 5) (K00 K) = (n + 6, s7)"
    by (simp add: odefs sdefs X_def n_def nth_append)
  have e7: "np_scalar fsub s7 (n + 1) (K12 K) = (n + 7, s8)"
    by (simp add: odefs sdefs T3_def n_def nth_append)
  have e8: "np_arr fmul s8 (n + 7) (n + 3) = (n + 8, s9)"
    by (simp add: odefs sdefs T4_def n_def nth_append)
  have e9: "np_scalar fdiv s9 (n + 8) (K11 K) = (n + 9, s10)"
    by (simp add: odefs sdefs Y_def n_def nth_append)
  have e10: "np_stack3 s10 (n + 6) (n + 9) (n + 3) = (n + 10, s11)"
    by (simp add: odefs sdefs P_def n_def nth_append)
  have e11: "deref s11 (n + 3) = Z"
    by (simp add: odefs sdefs n_def nth_append)
  have e12: "np_select s11 (n + 10) (map (\<lambda>d. fgt d (Fin (1 / 1000))) (concat Z)) = (n + 11, s12)"
    by (simp add: odefs sdefs R_def n_def nth_append)
  have e13: "deref s12 (n + 11) = R"
    by (simp add: odefs sdefs n_def nth_append)
  have "depth_to_pointcloud_st s a K = (PointCloud R, s12)"
    unfolding depth_to_pointcloud_st_def
    by (simp only: hw Let_def prod.case e1 e2 e3 e4 e5 e6 e7 e8 e9 e10 e11 e12 e13)
  then show ?thesis
    unfolding R_def P_def Z_def D_def s12_def by blast
qed

lemma select_third:
  assumes "p \<in> set (map (\<lambda>r. (r ! 0, r ! 1, r ! 2)) (map fst (filter snd
      (zip (map (\<lambda>(a, b, c). [a, b, c]) (zip X (zip Y Z))) (map h Z)))))"
  shows "h (snd (snd p))"
proof -
  from assms obtain r
    where r: "(r, True) \<in> set (zip (map (\<lambda>(a, b, c). [a, b, c]) (zip X (zip Y Z))) (map h Z))"
      and p: "p = (r ! 0, r ! 1, r ! 2)"
    by auto
  from r obtain i where i: "i < length (zip X (zip Y Z))" "i < length Z"
    and ri: "r = (map (\<lambda>(a, b, c). [a, b, c]) (zip X (zip Y Z))) ! i" and hi: "(map h Z) ! i"
    by (auto simp: in_set_zip)
  from i ri have "r = [X ! i, Y ! i, Z ! i]" by simp
  with p hi i show ?thesis by simp
qed

lemma select_none:
  assumes "\<forall>b\<in>set B. \<not> b"
  shows "filter snd (zip A B) = []"
  using assms by (auto simp: filter_empty_conv dest: set_zip_rightD)

lemma scaled_zero:
  assumes "constant_array 0 depth"
  shows "\<forall>d\<in>set (concat (arr_scalar fmul depth (Fin 3))). d = Fin 0"
  using assms by (fastforce simp: constant_array_def arr_scalar_def list_all_iff)

lemma zero_depth_cloud:
  assumes z: "constant_array 0 depth"
  shows "depth_to_pointcloud depth K = \<lparr>points = [], normals = []\<rparr>"
proof -
  obtain X Y new where c: "depth_to_pointcloud_st [depth] 0 K =
      (PointCloud (map fst (filter snd
          (zip (map (\<lambda>(a, b, c). [a, b, c])
                  (zip X (zip Y (concat (arr_scalar fmul depth (Fin 3))))))
               (map (\<lambda>d. fgt d (Fin (1 / 1000))) (concat (arr_scalar fmul depth (Fin 3))))))),
       [depth] @ new)"
    using depth_to_pointcloud_st_char [of 0 "[depth]" K] by auto
  have "\<forall>b\<in>set (map (\<lambda>d. fgt d (Fin (1 / 1000))) (concat (arr_scalar fmul depth (Fin 3)))). \<not> b"
    using scaled_zero [OF z] by fastforce
  then show ?thesis
    by (simp add: depth_to_pointcloud_def c PointCloud_def select_none)
qed

lemma zero_depth_no_points:
  assumes "constant_array 0 depth"
  shows "points (depth_to_pointcloud depth K) = []"
  by (simp add: zero_depth_cloud [OF assms])

text \<open>
  C7. A depth map that is exactly 0 at every pixel gives the empty point cloud, and in
  general no point of the cloud has a scaled depth \<open>z\<close> at or below the threshold
  \<open>0.001\<close>: such pixels are discarded.
\<close>

theorem zero_depth_empty_cloud:
  "(constant_array 0 depth \<longrightarrow> points (depth_to_pointcloud depth K) = [])
   \<and> list_all (\<lambda>p. fgt (snd (snd p)) (Fin (1 / 1000))) (points (depth_to_pointcloud depth K))"
proof -
  obtain X Y new where c: "depth_to_pointcloud_st [depth] 0 K =
      (PointCloud (map fst (filter snd
          (zip (map (\<lambda>(a, b, c). [a, b, c])
                  (zip X (zip Y (concat (arr_scalar fmul depth (Fin 3))))))
               (map (\<lambda>d. fgt d (Fin (1 / 1000))) (concat (arr_scalar fmul depth (Fin 3))))))),
       [depth] @ new)"
    using depth_to_pointcloud_st_char [of 0 "[depth]" K] by auto
  have "list_all (\<lambda>p. fgt (snd (snd p)) (Fin (1 / 1000))) (points (depth_to_pointcloud depth K))"
    unfolding list_all_iff
  proof
    fix p assume "p \<in> set (points (depth_to_pointcloud depth K))"
    then show "fgt (snd (snd p)) (Fin (1 / 1000))"
      using select_third [of p X Y _ "\<lambda>d. fgt d (Fin (1 / 1000))"]
      by (simp add: depth_to_pointcloud_def c PointCloud_def)
  qed
  with zero_depth_no_points show ?thesis by blast
qed

theorem zero_depth_empty_cloud_witness:
  "constant_array 0 [[Fin 0, Fin 0], [Fin 0, Fin 0]]
   \<and> points (depth_to_pointcloud [[Fin 0, Fin 0], [Fin 0, Fin 0]] (infer_intrinsics 2 2 None)) = []"
  using zero_depth_empty_cloud [of "[[Fin 0, Fin 0], [Fin 0, Fin 0]]" "infer_intrinsics 2 2 None"]
  by (simp add: constant_array_def)

text \<open>
  C9. The back-projector leaves its input depth array unchanged: the cell of the depth
  map, like every cell that existed before the call, holds the same array after it.
\<close>

theorem depth_to_pointcloud_frame:
  assumes "depth < length s"
  shows "deref (snd (depth_to_pointcloud_st s depth K)) depth = deref s depth
       \<and> take (length s) (snd (depth_to_pointcloud_st s depth K)) = s"
  using depth_to_pointcloud_st_char [OF assms, of K] by (auto simp: deref_def nth_append assms)

theorem depth_to_pointcloud_frame_witness:
  "(0::nat) < length [[[Fin 1, Fin 0]]]
   \<and> deref (snd (depth_to_pointcloud_st [[[Fin 1, Fin 0]]] 0 (infer_intrinsics 2 1 None))) 0
       = [[Fin 1, Fin 0]]"
  using depth_to_pointcloud_frame [of 0 "[[[Fin 1, Fin 0]]]" "infer_intrinsics 2 1 None"]
  by (simp add: deref_def)

subsection \<open>The depth post-processor\<close>

text \<open>The constants of line 94 in float32, and the two roundings that overflow or do not.\<close>

lemma f64_eps: "float64 (Fin (1 / 100000000)) = Fin (3022314549036573 / 302231454903657293676544)"
  using round_to_at [of "- 27" "1 / 100000000" 53 "- 1022" 1023]
  by (simp add: Let_def round_even_def power_int_minus float64.simps)

lemma f32_eps:
  "float32 (Fin (3022314549036573 / 302231454903657293676544)) = Fin (11258999 / 1125899906842624)"
  using round_to_at [of "- 27" "3022314549036573 / 302231454903657293676544" 24 "- 126" 127]
  by (simp add: Let_def round_even_def power_int_minus float32.simps)

lemma f32_eps_idem: "float32 (Fin (11258999 / 1125899906842624)) = Fin (11258999 / 1125899906842624)"
  using round_to_at [of "- 27" "11258999 / 1125899906842624" 24 "- 126" 127]
  by (simp add: Let_def round_even_def power_int_minus float32.simps)

lemma eps32: "float32 (float64 (Fin (1 / 100000000))) = Fin (11258999 / 1125899906842624)"
  by (simp only: f64_eps f32_eps)

lemma f32_top: "float32 (Fin (2 ^ 127)) = Fin (2 ^ 127)"
  using round_to_at [of 127 "2 ^ 127" 24 "- 126" 127]
  by (simp add: Let_def round_even_def power_int_minus float32.simps)

lemma f32_bottom: "float32 (Fin (- (2 ^ 127))) = Fin (- (2 ^ 127))"
  using round_to_at [of 127 "- (2 ^ 127)" 24 "- 126" 127]
  by (simp add: Let_def round_even_def power_int_minus float32.simps)

lemma f32_over: "float32 (Fin (2 ^ 128)) = PInf"
  using round_to_at [of 128 "2 ^ 128" 24 "- 126" 127]
  by (simp add: Let_def round_even_def power_int_minus float32.simps)

lemma constant_min: "\<forall>d\<in>set xs. d = Fin c \<Longrightarrow> foldl fminimum (Fin c) xs = Fin c"
  by (induction xs) auto

lemma constant_max: "\<forall>d\<in>set xs. d = Fin c \<Longrightarrow> foldl fmaximum (Fin c) xs = Fin c"
  by (induction xs) auto

text \<open>On a constant map every pixel is \<open>0 / float32 (1e-8)\<close>, which is 0.\<close>

lemma zero_over_eps:
  "float32 (fdiv (float32 (fsub (Fin c) (Fin c)))
      (float32 (fadd (float32 (fsub (Fin c) (Fin c))) (float32 (float64 (Fin (1 / 100000000))))))) = Fin 0"
proof -
  have z: "float32 (fsub (Fin c) (Fin c)) = Fin 0" by (simp add: fsub_def)
  have "fadd (Fin 0) (Fin (11258999 / 1125899906842624)) = Fin (11258999 / 1125899906842624)" by simp
  then have d: "float32 (fadd (Fin 0) (float32 (float64 (Fin (1 / 100000000))))) =
      Fin (11258999 / 1125899906842624)"
    by (simp only: eps32 f32_eps_idem)
  have "fdiv (Fin 0) (Fin (11258999 / 1125899906842624)) = Fin 0" by simp
  then show ?thesis by (simp only: z d float32_zero_one)
qed

lemma identity_filter_range_preserving: "range_preserving (\<lambda>a d sc ss. Inr a)"
  by (simp add: range_preserving_def)

lemma in_range_zero: "in_range 0 0 a = constant_array 0 a"
proof -
  have "fin_between 0 0 x = (x = Fin 0)" for x by (cases x) auto
  then have "fin_between 0 0 = (\<lambda>x. x = Fin 0)" by (intro ext)
  then show ?thesis by (simp add: in_range_def constant_array_def)
qed

lemma minmax_normalize_constant:
  assumes ne: "concat raw \<noteq> []" and c: "constant_array c raw"
  shows "\<exists>n. minmax_normalize raw = Inr n \<and> constant_array 0 n \<and> concat n \<noteq> []"
proof -
  have cc: "\<forall>r\<in>set raw. \<forall>d\<in>set r. d = Fin c"
    using c by (auto simp: constant_array_def list_all_iff)
  from ne obtain x xs where x: "concat raw = x # xs" by (cases "concat raw") auto
  have "\<forall>d\<in>set (concat raw). d = Fin c" using cc by auto
  then have all: "x = Fin c" "\<forall>d\<in>set xs. d = Fin c" by (simp_all add: x)
  have mn: "amin raw = Inr (Fin c)" by (simp add: amin_def x all(1) constant_min [OF all(2)])
  have mx: "amax raw = Inr (Fin c)" by (simp add: amax_def x all(1) constant_max [OF all(2)])
  define den where
    "den = float32 (fadd (float32 (fsub (Fin c) (Fin c))) (float32 (float64 (Fin (1 / 100000000)))))"
  define n' where "n' = map (map (\<lambda>d. float32 (fdiv (float32 (fsub d (Fin c))) den))) raw"
  have eq: "minmax_normalize raw = Inr n'"
    unfolding minmax_normalize_def and_then_def mn mx arr_scalar_def n'_def den_def
    by (simp add: comp_def)
  have v: "float32 (fdiv (float32 (fsub (Fin c) (Fin c))) den) = Fin 0"
    unfolding den_def by (rule zero_over_eps)
  have "constant_array 0 n'"
    unfolding constant_array_def n'_def list_all_iff
  proof (intro ballI)
    fix r y
    assume "r \<in> set (map (map (\<lambda>d. float32 (fdiv (float32 (fsub d (Fin c))) den))) raw)" "y \<in> set r"
    then obtain r0 d where "r0 \<in> set raw" "d \<in> set r0"
      and y: "y = float32 (fdiv (float32 (fsub d (Fin c))) den)" by auto
    with cc have "d = Fin c" by blast
    with y v show "y = Fin 0" by simp
  qed
  moreover have "concat n' \<noteq> []" using ne by (auto simp: n'_def)
  ultimately show ?thesis using eq by blast
qed

text \<open>
  C6. The normalisation does not keep every finite depth map within \<open>[0, 1]\<close>. On the map
  of float32 numbers \<open>[[-2^127, 2^127], [0, 0]]\<close> the difference \<open>max - min\<close> is \<open>2 ^ 128\<close>,
  which float32 rounds to infinity; the pixel that holds the maximum becomes
  \<open>inf / inf\<close>, not a number, and a filter that returns its input hands it on. The
  constant part of the claim holds: lemma \<open>minmax_normalize_constant\<close>.
\<close>

theorem depth_postprocess_overflow:
  "all_finite wide_depth
   \<and> float32 (Fin (- (2 ^ 127))) = Fin (- (2 ^ 127))
   \<and> float32 (Fin (2 ^ 127)) = Fin (2 ^ 127)
   \<and> minmax_normalize wide_depth = Inr [[Fin 0, NaN], [Fin 0, Fin 0]]
   \<and> estimate_depth vision_wide () () () Cpu = Inr [[Fin 0, NaN], [Fin 0, Fin 0]]
   \<and> \<not> in_range 0 1 [[Fin 0, NaN], [Fin 0, Fin 0]]"
proof -
  have mn: "amin wide_depth = Inr (Fin (- (2 ^ 127)))" by (simp add: amin_def wide_depth_def)
  have mx: "amax wide_depth = Inr (Fin (2 ^ 127))" by (simp add: amax_def wide_depth_def)
  define den where "den = float32 (fadd (float32 (fsub (Fin (2 ^ 127)) (Fin (- (2 ^ 127)))))
                                         (float32 (float64 (Fin (1 / 100000000)))))"
  have s: "fsub (Fin (2 ^ 127)) (Fin (- (2 ^ 127))) = Fin (2 ^ 128)" by (simp add: fsub_def)
  have den: "den = PInf"
    unfolding den_def by (simp only: s f32_over eps32 fadd.simps float32.simps(2-4))
  have a: "float32 (fsub (Fin (- (2 ^ 127))) (Fin (- (2 ^ 127)))) = Fin 0" by (simp add: fsub_def)
  have b: "float32 (fsub (Fin (2 ^ 127)) (Fin (- (2 ^ 127)))) = PInf" by (simp only: s f32_over)
  have "fsub (Fin 0) (Fin (- (2 ^ 127))) = Fin (2 ^ 127)" by (simp add: fsub_def)
  then have c: "float32 (fsub (Fin 0) (Fin (- (2 ^ 127)))) = Fin (2 ^ 127)" by (simp only: f32_top)
  have "minmax_normalize wide_depth =
      Inr [[float32 (fdiv (float32 (fsub (Fin (- (2 ^ 127))) (Fin (- (2 ^ 127))))) den),
            float32 (fdiv (float32 (fsub (Fin (2 ^ 127)) (Fin (- (2 ^ 127))))) den)],
           [float32 (fdiv (float32 (fsub (Fin 0) (Fin (- (2 ^ 127))))) den),
            float32 (fdiv (float32 (fsub (Fin 0) (Fin (- (2 ^ 127))))) den)]]"
    unfolding minmax_normalize_def and_then_def mn mx arr_scalar_def den_def
    by (simp only: sum.case wide_depth_def list.map)
  also have "\<dots> = Inr [[Fin 0, NaN], [Fin 0, Fin 0]]"
    by (simp only: a b c den fdiv.simps float32.simps(2-4) float32_zero_one)
  finally have n: "minmax_normalize wide_depth = Inr [[Fin 0, NaN], [Fin 0, Fin 0]]" .
  have e: "estimate_depth vision_wide () () () Cpu = Inr [[Fin 0, NaN], [Fin 0, Fin 0]]"
    by (simp add: estimate_depth_def and_then_def vision_wide_def n)
  have f: "all_finite wide_depth" by (simp add: all_finite_def wide_depth_def)
  have r: "\<not> in_range 0 1 [[Fin 0, NaN], [Fin 0, Fin 0]]" by (simp add: in_range_def)
  from f f32_bottom f32_top n e r show ?thesis by blast
qed

text \<open>
  C10. A constant raw depth map is normalised to the depth map that is 0 at every pixel;
  the filter keeps it at 0, so the post-processed depth is exactly 0 everywhere, and the
  back-projector turns it into the empty point cloud.
\<close>

theorem constant_depth_empty_cloud:
  assumes rp: "range_preserving (bilateralFilter V)"
      and raw: "predict V model transform image_bgr dev = Inr raw"
      and ne: "concat raw \<noteq> []"
      and c: "constant_array c raw"
  shows "\<exists>n out. minmax_normalize raw = Inr n \<and> constant_array 0 n
           \<and> estimate_depth V model transform image_bgr dev = Inr out \<and> constant_array 0 out
           \<and> points (depth_to_pointcloud out K) = []"
proof -
  from minmax_normalize_constant [OF ne c] obtain n
    where n: "minmax_normalize raw = Inr n" "constant_array 0 n" "concat n \<noteq> []" by blast
  from n(2) have "in_range 0 0 n" by (simp add: in_range_zero)
  with rp n(3) obtain out where out: "bilateralFilter V n 9 (1 / 10) 7 = Inr out" "in_range 0 0 out"
    unfolding range_preserving_def by blast
  from out(2) have z: "constant_array 0 out" by (simp add: in_range_zero)
  have "estimate_depth V model transform image_bgr dev = Inr out"
    by (simp add: estimate_depth_def and_then_def raw n(1) out(1))
  with n z zero_depth_no_points [OF z] show ?thesis by blast
qed

theorem constant_depth_empty_cloud_witness:
  "range_preserving (bilateralFilter vision_const)
   \<and> constant_array 5 [[Fin 5, Fin 5], [Fin 5, Fin 5]]
   \<and> (\<exists>out. estimate_depth vision_const () () () Cpu = Inr out \<and> constant_array 0 out
        \<and> points (depth_to_pointcloud out (infer_intrinsics 2 2 None)) = [])"
proof -
  have 1: "range_preserving (bilateralFilter vision_const)"
    by (simp add: vision_const_def identity_filter_range_preserving)
  have 2: "predict vision_const () () () Cpu = Inr [[Fin 5, Fin 5], [Fin 5, Fin 5]]"
    by (simp add: vision_const_def)
  have 3: "concat [[Fin 5, Fin 5], [Fin 5, Fin 5]] \<noteq> []" by simp
  have 4: "constant_array 5 [[Fin 5, Fin 5], [Fin 5, Fin 5]]" by (simp add: constant_array_def)
  from constant_depth_empty_cloud [OF 1 2 3 4, of "infer_intrinsics 2 2 None"] 1 4 show ?thesis by blast
qed

subsection \<open>The model loader\<close>

text \<open>
  C3 (as amended). A failure to load the transforms propagates at once. Otherwise the
  loader tries \<open>DPT_Large\<close>, \<open>DPT_Hybrid\<close> and \<open>MiDaS_small\<close> in this order, goes on to
  the next variant on any failure of loading or initialising one, and returns the first
  variant that initialises, paired with \<open>small_transform\<close> for \<open>MiDaS_small\<close> and with
  \<open>dpt_transform\<close> for the two others. It raises one \<open>RuntimeError\<close> only when all three
  variants failed, and the message of that error carries the error of the last attempt.
\<close>

theorem load_midas_fallback:
  "(load_transforms H = Inl e \<longrightarrow> load_midas H dev = Inl e)
   \<and> (load_transforms H = Inr T \<longrightarrow>
        (init_variant H dev ''DPT_Large'' = Inr m \<longrightarrow>
           load_midas H dev = Inr (m, dpt_transform T))
      \<and> (init_variant H dev ''DPT_Large'' = Inl e1 \<and> init_variant H dev ''DPT_Hybrid'' = Inr m \<longrightarrow>
           load_midas H dev = Inr (m, dpt_transform T))
      \<and> (init_variant H dev ''DPT_Large'' = Inl e1 \<and> init_variant H dev ''DPT_Hybrid'' = Inl e2
           \<and> init_variant H dev ''MiDaS_small'' = Inr m \<longrightarrow>
           load_midas H dev = Inr (m, small_transform T))
      \<and> (init_variant H dev ''DPT_Large'' = Inl e1 \<and> init_variant H dev ''DPT_Hybrid'' = Inl e2
           \<and> init_variant H dev ''MiDaS_small'' = Inl e3 \<longrightarrow>
           load_midas H dev =
             Inl (RuntimeError (''Failed to load MiDaS model variants: '' @ exc_str e3))))"
  by (simp add: load_midas_def and_then_def format_error_def)

theorem load_midas_fallback_witness:
  "load_transforms hub_hybrid = Inr \<lparr>small_transform = ''small_transform'', dpt_transform = ''dpt_transform''\<rparr>
   \<and> init_variant hub_hybrid Cpu ''DPT_Large'' = Inl (OtherException ''out of memory'')
   \<and> init_variant hub_hybrid Cpu ''DPT_Hybrid'' = Inr ''DPT_Hybrid''
   \<and> load_midas hub_hybrid Cpu = Inr (''DPT_Hybrid'', ''dpt_transform'')"
  using load_midas_fallback [of hub_hybrid _ Cpu "\<lparr>small_transform = ''small_transform'', dpt_transform = ''dpt_transform''\<rparr>"
      "''DPT_Hybrid''" "OtherException ''out of memory''"]
  by (simp add: hub_hybrid_def init_variant_def and_then_def)

text \<open>
  The claim as stated fails: the raised error does not aggregate the errors of all
  attempts. On a hub where the three variants fail with three different errors the message
  holds the third one only, and it is the same whatever the first attempt's error was.
\<close>

theorem load_midas_last_error_only:
  "load_midas (hub_failing ''large: out of memory'') Cpu =
     Inl (RuntimeError ''Failed to load MiDaS model variants: small: download failed'')
   \<and> load_midas (hub_failing ''large: no network'') Cpu =
       load_midas (hub_failing ''large: out of memory'') Cpu
   \<and> init_variant (hub_failing ''large: no network'') Cpu ''DPT_Large''
       \<noteq> init_variant (hub_failing ''large: out of memory'') Cpu ''DPT_Large''"
  by (simp add: load_midas_def and_then_def format_error_def hub_failing_def init_variant_def)

subsection \<open>The surface reconstructor\<close>

text \<open>
  C2 (as amended). The decimation step is skipped exactly when the repaired mesh has no
  triangle; a mesh with at least one triangle is passed through the decimation with the
  target \<open>min(count, 150000)\<close>, also when its count is at or below the budget.
\<close>

theorem decimation_skipped_only_when_empty:
  assumes "repair_mesh O3 pcd = Inr mesh"
  shows "(length (triangles mesh) = 0 \<longrightarrow>
            reconstruct_mesh O3 pcd = with_vertex_normals O3 mesh)
       \<and> (0 < length (triangles mesh) \<longrightarrow>
            reconstruct_mesh O3 pcd =
              and_then (simplify_quadric_decimation O3 mesh (min (length (triangles mesh)) 150000))
                (with_vertex_normals O3))"
  using assms by (simp add: reconstruct_mesh_def and_then_def Let_def)

theorem decimation_skipped_only_when_empty_witness:
  "repair_mesh o3d_stub three_points = Inr one_triangle
   \<and> 0 < length (triangles one_triangle)
   \<and> reconstruct_mesh o3d_stub three_points =
       and_then (simplify_quadric_decimation o3d_stub one_triangle 1) (with_vertex_normals o3d_stub)"
proof -
  have r: "repair_mesh o3d_stub three_points = Inr one_triangle"
    by (simp add: repair_mesh_def and_then_def o3d_stub_def has_normals_def three_points_def
        one_triangle_def)
  have l: "length (triangles one_triangle) = 1" by (simp add: one_triangle_def)
  from decimation_skipped_only_when_empty [OF r] r l show ?thesis by simp
qed

text \<open>
  The claim as stated fails at a mesh with one triangle, which is below the budget: the
  reconstructor's result is the exception of the decimation, so the decimation was
  called; had it been skipped, the result were the mesh with its normals.
\<close>

theorem decimation_called_below_budget:
  "repair_mesh o3d_marking three_points = Inr one_triangle
   \<and> length (triangles one_triangle) \<le> 150000
   \<and> reconstruct_mesh o3d_marking three_points =
       Inl (OtherException ''simplify_quadric_decimation called'')
   \<and> with_vertex_normals o3d_marking one_triangle =
       Inr (one_triangle\<lparr>vertex_normals := [(Fin 0, Fin 0, Fin 1), (Fin 0, Fin 0, Fin 1), (Fin 0, Fin 0, Fin 1)]\<rparr>)"
  by (simp add: reconstruct_mesh_def repair_mesh_def with_vertex_normals_def and_then_def
      o3d_marking_def o3d_stub_def has_normals_def three_points_def one_triangle_def)

lemma with_vertex_normals_triangles:
  "with_vertex_normals O3 m = Inr m' \<Longrightarrow> triangles m' = triangles m"
  by (auto simp: with_vertex_normals_def and_then_def split: sum.splits)

text \<open>
  C8 (as amended). The reconstructor does not count the triangles after the decimation:
  the mesh it returns has the triangles of the mesh that the decimation returned for the
  target \<open>min(count, 150000)\<close>, and none when the repaired mesh had none. The count is at
  most 150000 when the decimation returns at most the requested number of triangles.
\<close>

theorem reconstruct_mesh_triangle_count:
  assumes r: "reconstruct_mesh O3 pcd = Inr mesh"
  shows "\<exists>m0. repair_mesh O3 pcd = Inr m0
          \<and> (length (triangles m0) = 0 \<longrightarrow> triangles mesh = [])
          \<and> (0 < length (triangles m0) \<longrightarrow>
               (\<exists>m1. simplify_quadric_decimation O3 m0 (min (length (triangles m0)) 150000) = Inr m1
                  \<and> triangles mesh = triangles m1))
          \<and> (reaches_target (simplify_quadric_decimation O3) \<longrightarrow> length (triangles mesh) \<le> 150000)"
proof -
  from r obtain m0 where m0: "repair_mesh O3 pcd = Inr m0"
    by (auto simp: reconstruct_mesh_def and_then_def split: sum.splits)
  show ?thesis
  proof (cases "0 < length (triangles m0)")
    case True
    then have t: "0 < min (length (triangles m0)) 150000" by simp
    with r m0 obtain m1
      where m1: "simplify_quadric_decimation O3 m0 (min (length (triangles m0)) 150000) = Inr m1"
        and n: "with_vertex_normals O3 m1 = Inr mesh"
      by (auto simp: reconstruct_mesh_def and_then_def Let_def split: sum.splits)
    have eq: "triangles mesh = triangles m1" by (rule with_vertex_normals_triangles [OF n])
    have "length (triangles mesh) \<le> 150000" if "reaches_target (simplify_quadric_decimation O3)"
    proof -
      from that m1 have "length (triangles m1) \<le> min (length (triangles m0)) 150000"
        unfolding reaches_target_def by blast
      with eq show ?thesis by simp
    qed
    with m0 m1 eq True show ?thesis by auto
  next
    case False
    with r m0 have n: "with_vertex_normals O3 m0 = Inr mesh"
      by (auto simp: reconstruct_mesh_def and_then_def Let_def split: sum.splits)
    from False with_vertex_normals_triangles [OF n] have "triangles mesh = []" by simp
    with m0 False show ?thesis by auto
  qed
qed

lemma stub_decimation_reaches_target: "reaches_target (\<lambda>mesh target.
    Inr (mesh\<lparr>triangles := take target (triangles mesh)\<rparr>))"
  by (auto simp: reaches_target_def)

lemma strip_mesh_count: "length (triangles (strip_mesh n)) = n"
  by (simp add: strip_mesh_def)

lemma dense_repair: "repair_mesh o3d_dense three_points = Inr (strip_mesh 150001)"
  by (simp add: repair_mesh_def and_then_def o3d_dense_def o3d_stub_def has_normals_def
      three_points_def)

lemma dense_decimation:
  "simplify_quadric_decimation o3d_dense =
     (\<lambda>mesh target. Inr (mesh\<lparr>triangles := take target (triangles mesh)\<rparr>))"
  by (simp add: o3d_dense_def o3d_stub_def)

lemma dense_mesh:
  "reconstruct_mesh o3d_dense three_points =
     Inr ((strip_mesh 150001)
            \<lparr>triangles := take 150000 (triangles (strip_mesh 150001)),
             vertex_normals := map (\<lambda>p. (Fin 0, Fin 0, Fin 1)) (vertices (strip_mesh 150001))\<rparr>)"
proof -
  have "compute_vertex_normals o3d_dense = (\<lambda>mesh. Inr (map (\<lambda>p. (Fin 0, Fin 0, Fin 1)) (vertices mesh)))"
    by (simp add: o3d_dense_def o3d_stub_def)
  then show ?thesis
    by (simp add: reconstruct_mesh_def dense_repair dense_decimation with_vertex_normals_def
        and_then_def strip_mesh_count Let_def)
qed

text \<open>
  The reconstruction of the example is 150001 triangles large, one above the budget, and
  the decimation is asked for 150000 and returns as many.
\<close>

theorem reconstruct_mesh_triangle_count_witness:
  "repair_mesh o3d_dense three_points = Inr (strip_mesh 150001)
   \<and> length (triangles (strip_mesh 150001)) = 150001
   \<and> reaches_target (simplify_quadric_decimation o3d_dense)
   \<and> reconstruct_mesh o3d_dense three_points =
       Inr ((strip_mesh 150001)
              \<lparr>triangles := take 150000 (triangles (strip_mesh 150001)),
               vertex_normals := map (\<lambda>p. (Fin 0, Fin 0, Fin 1)) (vertices (strip_mesh 150001))\<rparr>)
   \<and> length (triangles ((strip_mesh 150001)
              \<lparr>triangles := take 150000 (triangles (strip_mesh 150001)),
               vertex_normals := map (\<lambda>p. (Fin 0, Fin 0, Fin 1)) (vertices (strip_mesh 150001))\<rparr>))
       \<le> 150000"
proof -
  have c: "reaches_target (simplify_quadric_decimation o3d_dense)"
    by (simp only: dense_decimation stub_decimation_reaches_target)
  from reconstruct_mesh_triangle_count [OF dense_mesh] c
  have "length (triangles ((strip_mesh 150001)
              \<lparr>triangles := take 150000 (triangles (strip_mesh 150001)),
               vertex_normals := map (\<lambda>p. (Fin 0, Fin 0, Fin 1)) (vertices (strip_mesh 150001))\<rparr>))
       \<le> 150000"
    by blast
  with dense_repair strip_mesh_count [of 150001] c dense_mesh show ?thesis by blast
qed

text \<open>
  The claim as stated fails with a decimation that stops early: the reconstruction of
  150001 triangles comes back from it as it went in, and the reconstructor returns it.
\<close>

theorem reconstruct_mesh_over_budget:
  "reconstruct_mesh o3d_stalling three_points =
     Inr ((strip_mesh 150001)
            \<lparr>vertex_normals := map (\<lambda>p. (Fin 0, Fin 0, Fin 1)) (vertices (strip_mesh 150001))\<rparr>)
   \<and> length (triangles ((strip_mesh 150001)
            \<lparr>vertex_normals := map (\<lambda>p. (Fin 0, Fin 0, Fin 1)) (vertices (strip_mesh 150001))\<rparr>))
       = 150001
   \<and> \<not> (150001 :: nat) \<le> 150000"
proof -
  have r: "repair_mesh o3d_stalling three_points = Inr (strip_mesh 150001)"
    by (simp add: repair_mesh_def and_then_def o3d_stalling_def o3d_dense_def o3d_stub_def
        has_normals_def three_points_def)
  have d: "simplify_quadric_decimation o3d_stalling = (\<lambda>mesh target. Inr mesh)"
    by (simp add: o3d_stalling_def)
  have n: "compute_vertex_normals o3d_stalling =
      (\<lambda>mesh. Inr (map (\<lambda>p. (Fin 0, Fin 0, Fin 1)) (vertices mesh)))"
    by (simp add: o3d_stalling_def o3d_dense_def o3d_stub_def)
  have "reconstruct_mesh o3d_stalling three_points =
     Inr ((strip_mesh 150001)
            \<lparr>vertex_normals := map (\<lambda>p. (Fin 0, Fin 0, Fin 1)) (vertices (strip_mesh 150001))\<rparr>)"
    by (simp add: reconstruct_mesh_def r d n with_vertex_normals_def and_then_def
        strip_mesh_count Let_def)
  then show ?thesis by (simp add: strip_mesh_count)
qed

subsection \<open>The UV projector\<close>

text \<open>
  C4. The projector returns one coordinate pair per vertex, in the order of the vertices,
  but not every pair lies in the unit square: for the finite vertex \<open>(0, 0, -0.000001)\<close>
  the sum \<open>Z + eps\<close> is zero, the projection is \<open>0 / 0\<close>, and clipping leaves the
  not-a-number in both coordinates.
\<close>

theorem compute_uv_singular_vertex:
  "compute_uv singular_mesh (infer_intrinsics 640 480 None) 640 480 = [(NaN, NaN)]"
  by (simp add: compute_uv_def singular_mesh_def intrinsics_vga Let_def clip_def fsub_def
      K00_def K02_def K11_def K12_def)

text \<open>The length and order of the result, and its range away from the singular depth.\<close>

lemma compute_uv_length: "length (compute_uv mesh K img_w img_h) = length (vertices mesh)"
  by (simp add: compute_uv_def Let_def)


lemma clip_unit: "fin_between 0 1 (clip (Fin a) (Fin 0) (Fin 1))"
  by (simp add: clip_def)

lemma flip_unit: "fin_between 0 1 a \<Longrightarrow> fin_between 0 1 (fsub (Fin 1) a)"
  by (cases a) (simp_all add: fsub_def)

lemma project_finite:
  assumes "z + 1 / 1000000 \<noteq> 0" and "w \<noteq> 0"
  shows "\<exists>a. fdiv (fadd (fdiv (fmul (Fin f) (Fin x)) (fadd (Fin z) (Fin (1 / 1000000)))) (Fin c)) (Fin w) = Fin a"
  using assms by simp

lemma compute_uv_range:
  assumes K: "K00 K = Fin fx" "K11 K = Fin fy" "K02 K = Fin cx" "K12 K = Fin cy"
      and wh: "0 < img_w" "0 < img_h"
      and verts: "\<forall>p\<in>set (vertices mesh). \<exists>x y z. p = (Fin x, Fin y, Fin z) \<and> z + 1 / 1000000 \<noteq> 0"
  shows "\<forall>(u, v)\<in>set (compute_uv mesh K img_w img_h). fin_between 0 1 u \<and> fin_between 0 1 v"
proof -
  have w: "real_of_int img_w \<noteq> 0" "real_of_int img_h \<noteq> 0" using wh by simp_all
  have eq: "compute_uv mesh K img_w img_h =
      map (\<lambda>(x, y, z).
        (clip (fdiv (fadd (fdiv (fmul (Fin fx) x) (fadd z (Fin (1 / 1000000)))) (Fin cx)) (Fin (real_of_int img_w))) (Fin 0) (Fin 1),
         fsub (Fin 1) (clip (fdiv (fadd (fdiv (fmul (Fin fy) y) (fadd z (Fin (1 / 1000000)))) (Fin cy)) (Fin (real_of_int img_h))) (Fin 0) (Fin 1))))
        (vertices mesh)"
    unfolding compute_uv_def Let_def K
    by (induction "vertices mesh") (auto simp: zip_map_map map_zip_map split_def zip_same_conv_map)
  show ?thesis
    unfolding eq
  proof (clarsimp)
    fix a b c assume "(a, b, c) \<in> set (vertices mesh)"
    with verts obtain x y z where p: "a = Fin x" "b = Fin y" "c = Fin z" "z + 1 / 1000000 \<noteq> 0"
      by fastforce
    from project_finite [OF p(4) w(1), of fx x cx] obtain ua
      where ua: "fdiv (fadd (fdiv (fmul (Fin fx) (Fin x)) (fadd (Fin z) (Fin (1 / 1000000)))) (Fin cx)) (Fin (real_of_int img_w)) = Fin ua" by blast
    from project_finite [OF p(4) w(2), of fy y cy] obtain va
      where va: "fdiv (fadd (fdiv (fmul (Fin fy) (Fin y)) (fadd (Fin z) (Fin (1 / 1000000)))) (Fin cy)) (Fin (real_of_int img_h)) = Fin va" by blast
    show "fin_between 0 1 (clip (fdiv (fadd (fdiv (fmul (Fin fx) a) (fadd c (Fin (1 / 1000000)))) (Fin cx)) (Fin (real_of_int img_w))) (Fin 0) (Fin 1))
        \<and> fin_between 0 1 (fsub (Fin 1) (clip (fdiv (fadd (fdiv (fmul (Fin fy) b) (fadd c (Fin (1 / 1000000)))) (Fin cy)) (Fin (real_of_int img_h))) (Fin 0) (Fin 1)))"
      unfolding p(1,2,3) ua va using clip_unit flip_unit by blast
  qed
qed

subsection \<open>The pipeline\<close>

lemma zero_depth_min_max:
  assumes ne: "concat depth \<noteq> []" and z: "constant_array 0 depth"
  shows "\<exists>lo hi. amin depth = Inr lo \<and> amax depth = Inr hi"
  using ne by (cases "concat depth") (simp_all add: amin_def amax_def)

lemma io_then_call_Inr: "io_then (call (Inr x)) f = f x"
  by (simp add: io_then_def call_def)

text \<open>
  C1 (as amended). The pipeline has no check for degenerate geometry and no failure of
  its own for it. For an input whose depth map is zero everywhere the back-projector
  returns the empty point cloud, which the run hands to the cleaner and the
  reconstructor. When the Poisson reconstruction raises on the cleaned cloud, as Open3D
  does on a cloud without normals, the run aborts with that exception, unchanged, and
  has written no file.
\<close>

theorem run_single_image_zero_depth_aborts:
  assumes img: "imread M input_path = Some image_bgr"
      and lm: "load_midas Hub (if cuda_is_available M then Cuda else Cpu) = Inr (model, transform)"
      and ed: "estimate_depth V model transform image_bgr (if cuda_is_available M then Cuda else Cpu) = Inr depth"
      and ne: "concat depth \<noteq> []"
      and z: "constant_array 0 depth"
      and cl: "clean_pointcloud O3 \<lparr>points = [], normals = []\<rparr> = Inr pcd"
      and ps: "create_from_point_cloud_poisson O3 pcd 8 = Inl e"
  shows "reconstruct_mesh O3 pcd = Inl e
       \<and> run_single_image M Hub V O3 input_path output_dir fs = (Inl e, fs)"
proof -
  from zero_depth_min_max [OF ne z] obtain a b where mm: "amin depth = Inr a" "amax depth = Inr b"
    by blast
  obtain h w where sh: "im_shape M image_bgr = (h, w)" by (cases "im_shape M image_bgr")
  have rm: "reconstruct_mesh O3 pcd = Inl e"
    by (simp add: reconstruct_mesh_def repair_mesh_def and_then_def ps)
  have "run_single_image M Hub V O3 input_path output_dir fs = (Inl e, fs)"
    unfolding run_single_image_def
    by (simp add: img sh lm ed mm zero_depth_cloud [OF z] cl rm io_then_call_Inr Let_def)
       (simp add: io_then_def call_def)
  with rm show ?thesis by simp
qed

lemma stub_depth:
  "estimate_depth vision_const ''DPT_Hybrid'' ''dpt_transform'' ''gray'' Cpu =
     Inr [[Fin 0, Fin 0], [Fin 0, Fin 0]]"
proof -
  have "minmax_normalize [[Fin 5, Fin 5], [Fin 5, Fin 5]] = Inr [[Fin 0, Fin 0], [Fin 0, Fin 0]]"
    unfolding minmax_normalize_def and_then_def arr_scalar_def
    by (simp add: amin_def amax_def zero_over_eps)
  then show ?thesis by (simp add: estimate_depth_def and_then_def vision_const_def)
qed

lemma stub_load: "load_midas hub_hybrid Cpu = Inr (''DPT_Hybrid'', ''dpt_transform'')"
  by (simp add: load_midas_def init_variant_def and_then_def hub_hybrid_def)

lemma stub_clean:
  "clean_pointcloud o3d_stub \<lparr>points = [], normals = []\<rparr> = Inr \<lparr>points = [], normals = []\<rparr>"
  by (simp add: clean_pointcloud_def and_then_def o3d_stub_def)

lemma stub_poisson:
  "create_from_point_cloud_poisson o3d_stub \<lparr>points = [], normals = []\<rparr> 8 =
     Inl (RuntimeError ''Point cloud has no normals'')"
  by (simp add: o3d_stub_def has_normals_def)

theorem run_single_image_zero_depth_aborts_witness:
  "imread media_stub ''room.jpg'' = Some ''gray''
   \<and> estimate_depth vision_const ''DPT_Hybrid'' ''dpt_transform'' ''gray'' Cpu =
       Inr [[Fin 0, Fin 0], [Fin 0, Fin 0]]
   \<and> constant_array 0 [[Fin 0, Fin 0], [Fin 0, Fin 0]]
   \<and> create_from_point_cloud_poisson o3d_stub \<lparr>points = [], normals = []\<rparr> 8 =
       Inl (RuntimeError ''Point cloud has no normals'')
   \<and> run_single_image media_stub hub_hybrid vision_const o3d_stub ''room.jpg'' ''out'' [] =
       (Inl (RuntimeError ''Point cloud has no normals''), [])"
proof -
  have i: "imread media_stub ''room.jpg'' = Some ''gray''" by (simp add: media_stub_def)
  have c: "(if cuda_is_available media_stub then Cuda else Cpu) = Cpu" by (simp add: media_stub_def)
  have z: "constant_array 0 [[Fin 0, Fin 0], [Fin 0, Fin 0]]" by (simp add: constant_array_def)
  have n: "concat [[Fin 0, Fin 0], [Fin 0, Fin 0]] \<noteq> ([] :: npfloat list)" by simp
  from run_single_image_zero_depth_aborts [of media_stub "''room.jpg''" "''gray''" hub_hybrid
      "''DPT_Hybrid''" "''dpt_transform''" vision_const "[[Fin 0, Fin 0], [Fin 0, Fin 0]]" o3d_stub
      "\<lparr>points = [], normals = []\<rparr>" "RuntimeError ''Point cloud has no normals''" "''out''" "[]"]
    i c z n stub_load stub_depth stub_clean stub_poisson
  show ?thesis by simp
qed

text \<open>
  The claim as stated fails: on an image whose depth map is zero everywhere the
  back-projector returns normally with the empty cloud, and what the run reports is the
  \<open>RuntimeError\<close> of Open3D's Poisson reconstruction about missing normals, the class of
  exception that a run also reports when no depth model could be loaded. No failure
  names the degenerate geometry.
\<close>

theorem run_single_image_zero_depth_library_error:
  "depth_to_pointcloud [[Fin 0, Fin 0], [Fin 0, Fin 0]] (infer_intrinsics 2 2 None) =
     \<lparr>points = [], normals = []\<rparr>
   \<and> create_from_point_cloud_poisson o3d_stub \<lparr>points = [], normals = []\<rparr> 8 =
       Inl (RuntimeError ''Point cloud has no normals'')
   \<and> run_single_image media_stub hub_hybrid vision_const o3d_stub ''room.jpg'' ''out'' [] =
       (Inl (RuntimeError ''Point cloud has no normals''), [])
   \<and> run_single_image media_stub (hub_failing ''large: out of memory'') vision_const o3d_stub
       ''room.jpg'' ''out'' [] =
       (Inl (RuntimeError ''Failed to load MiDaS model variants: small: download failed''), [])"
proof -
  have z: "constant_array 0 [[Fin 0, Fin 0], [Fin 0, Fin 0]]" by (simp add: constant_array_def)
  have mm: "amin [[Fin 0, Fin 0], [Fin 0, Fin 0]] = Inr (Fin 0)" "amax [[Fin 0, Fin 0], [Fin 0, Fin 0]] = Inr (Fin 0)"
    by (simp_all add: amin_def amax_def)
  have rm: "reconstruct_mesh o3d_stub \<lparr>points = [], normals = []\<rparr> =
      Inl (RuntimeError ''Point cloud has no normals'')"
    by (simp add: reconstruct_mesh_def repair_mesh_def and_then_def stub_poisson)
  have 1: "run_single_image media_stub hub_hybrid vision_const o3d_stub ''room.jpg'' ''out'' [] =
       (Inl (RuntimeError ''Point cloud has no normals''), [])"
    unfolding run_single_image_def
    by (simp add: media_stub_def stub_load stub_depth mm zero_depth_cloud [OF z] stub_clean rm
          io_then_call_Inr Let_def)
       (simp add: io_then_def call_def)
  have l: "load_midas (hub_failing ''large: out of memory'') Cpu =
      Inl (RuntimeError ''Failed to load MiDaS model variants: small: download failed'')"
    by (simp add: load_midas_def and_then_def format_error_def hub_failing_def init_variant_def)
  have 2: "run_single_image media_stub (hub_failing ''large: out of memory'') vision_const o3d_stub
       ''room.jpg'' ''out'' [] =
       (Inl (RuntimeError ''Failed to load MiDaS model variants: small: download failed''), [])"
    unfolding run_single_image_def
    by (simp add: media_stub_def l Let_def io_then_def call_def)
  from zero_depth_cloud [OF z, of "infer_intrinsics 2 2 None"] stub_poisson 1 2 show ?thesis by simp
qed

end
